theory Spec2Isabelle
  imports Main "HOL-Library.Char_ord" "HOL-Library.List_Lexorder"
begin

section \<open>The IONOS DNS API client (providers/dns/ionos/internal/client.go)\<close>

text \<open>
  A shallow embedding of \<^verbatim>\<open>client.go\<close>. Go strings and byte slices are \<open>string\<close>
  (lists of 8-bit characters). The functions of the Go standard library the client calls
  (\<^verbatim>\<open>encoding/json\<close>, \<^verbatim>\<open>net/url\<close>, \<^verbatim>\<open>path\<close>, \<^verbatim>\<open>net/http\<close>, \<^verbatim>\<open>io\<close>) and of
  \<^verbatim>\<open>go-querystring\<close> are modelled by executable functions that keep the library's names.
\<close>

subsection \<open>encoding/json: the scanner\<close>

text \<open>
  \<^verbatim>\<open>scanner.go\<close> is a state machine that is fed one byte at a time. The model keeps its
  states and its parse-state stack; in addition every stack entry carries the values
  read so far, so that the scan also yields the value the decoder will see.
\<close>

datatype json =
    JNull
  | JBool bool
  | JNumber string
  | JString string
  | JArray "json list"
  | JObject "(string \<times> json) list"

datatype parseState =
    parseArrayValue "json list"
  | parseObjectKey "(string \<times> json) list" "string option"
  | parseObjectValue "(string \<times> json) list" "string option"

datatype step =
    BeginValue | BeginValueOrEmpty | BeginStringOrEmpty | BeginString
  | EndValue | EndTop
  | InString | InStringEsc | InStringEscU | InStringEscU1 | InStringEscU12 | InStringEscU123
  | Neg | St1 | St0 | Dot | Dot0 | StE | StESign | StE0
  | StT | StTr | StTru | StF | StFa | StFal | StFals | StN | StNu | StNul
  | StError

record scanner =
  step :: step
  parseState :: "parseState list"
  literal :: string
  endTop :: bool
  topValue :: "json option"
  scanErr :: "string option"

definition scanner_reset :: scanner where
  "scanner_reset =
     \<lparr>step = BeginValue, parseState = [], literal = [], endTop = False,
      topValue = None, scanErr = None\<rparr>"

definition isSpace :: "char \<Rightarrow> bool" where
  "isSpace c \<longleftrightarrow> c = CHR '' '' \<or> c = CHR 0x09 \<or> c = CHR 0x0D \<or> c = CHR 0x0A"

definition isDigit :: "char \<Rightarrow> bool" where
  "isDigit c \<longleftrightarrow> CHR ''0'' \<le> c \<and> c \<le> CHR ''9''"

definition isHex :: "char \<Rightarrow> bool" where
  "isHex c \<longleftrightarrow> isDigit c \<or> (CHR ''a'' \<le> c \<and> c \<le> CHR ''f'') \<or> (CHR ''A'' \<le> c \<and> c \<le> CHR ''F'')"

definition maxNestingDepth :: nat where
  "maxNestingDepth = 10000"

text \<open>\<^verbatim>\<open>s.error(c, context)\<close>: the scanner stops with a syntax error; the model keeps the
  context text of the message.\<close>

definition scanner_error :: "scanner \<Rightarrow> string \<Rightarrow> scanner" where
  "scanner_error s context =
     s\<lparr>step := StError, scanErr := (case scanErr s of None \<Rightarrow> Some context | Some e \<Rightarrow> Some e)\<rparr>"

definition pushParseState :: "scanner \<Rightarrow> parseState \<Rightarrow> step \<Rightarrow> scanner" where
  "pushParseState s newParseState successState =
     (if length (parseState s) + 1 \<le> maxNestingDepth
      then s\<lparr>parseState := newParseState # parseState s, step := successState\<rparr>
      else scanner_error s ''exceeded max depth'')"

text \<open>A finished value goes to the innermost open array or object, or is the top-level value.\<close>

definition storeValue :: "json \<Rightarrow> scanner \<Rightarrow> scanner" where
  "storeValue v s =
     (case parseState s of
        [] \<Rightarrow> s\<lparr>topValue := Some v\<rparr>
      | parseArrayValue xs # ps \<Rightarrow> s\<lparr>parseState := parseArrayValue (v # xs) # ps\<rparr>
      | parseObjectKey ms k # ps \<Rightarrow>
          s\<lparr>parseState := parseObjectKey ms (case v of JString x \<Rightarrow> Some x | _ \<Rightarrow> k) # ps\<rparr>
      | parseObjectValue ms k # ps \<Rightarrow>
          s\<lparr>parseState :=
              parseObjectValue (case k of Some x \<Rightarrow> (x, v) # ms | None \<Rightarrow> ms) None # ps\<rparr>)"

definition popParseState :: "scanner \<Rightarrow> scanner" where
  "popParseState s =
     (case parseState s of
        [] \<Rightarrow> s
      | f # ps \<Rightarrow>
          (let v = (case f of
                      parseArrayValue xs \<Rightarrow> JArray (rev xs)
                    | parseObjectKey ms k \<Rightarrow> JObject (rev ms)
                    | parseObjectValue ms k \<Rightarrow> JObject (rev ms));
               s' = storeValue v (s\<lparr>parseState := ps\<rparr>)
           in if ps = [] then s'\<lparr>step := EndTop, endTop := True\<rparr> else s'\<lparr>step := EndValue\<rparr>))"

definition stateEndTop :: "scanner \<Rightarrow> char \<Rightarrow> scanner" where
  "stateEndTop s c = (if \<not> isSpace c then scanner_error s ''after top-level value'' else s)"

definition stateEndValue :: "scanner \<Rightarrow> char \<Rightarrow> scanner" where
  "stateEndValue s c =
     (case parseState s of
        [] \<Rightarrow> stateEndTop (s\<lparr>step := EndTop, endTop := True\<rparr>) c
      | ps # rest \<Rightarrow>
          if isSpace c then s\<lparr>step := EndValue\<rparr>
          else (case ps of
                  parseObjectKey ms k \<Rightarrow>
                    if c = CHR '':'' then s\<lparr>parseState := parseObjectValue ms k # rest, step := BeginValue\<rparr>
                    else scanner_error s ''after object key''
                | parseObjectValue ms k \<Rightarrow>
                    if c = CHR '','' then s\<lparr>parseState := parseObjectKey ms None # rest, step := BeginString\<rparr>
                    else if c = CHR ''}'' then popParseState s
                    else scanner_error s ''after object key:value pair''
                | parseArrayValue xs \<Rightarrow>
                    if c = CHR '','' then s\<lparr>step := BeginValue\<rparr>
                    else if c = CHR '']'' then popParseState s
                    else scanner_error s ''after array element''))"

subsection \<open>encoding/json: string literals\<close>

text \<open>\<^verbatim>\<open>utf8.EncodeRune\<close>; surrogates and values beyond U+10FFFF become U+FFFD.\<close>

definition RuneError :: string where
  "RuneError = [CHR 0xEF, CHR 0xBF, CHR 0xBD]"

definition utf8_EncodeRune :: "nat \<Rightarrow> string" where
  "utf8_EncodeRune r =
     (if r < 0x80 then [char_of r]
      else if r < 0x800 then [char_of (0xC0 + r div 64), char_of (0x80 + r mod 64)]
      else if (0xD800 \<le> r \<and> r < 0xE000) \<or> 0x10FFFF < r then RuneError
      else if r < 0x10000 then
        [char_of (0xE0 + r div 4096), char_of (0x80 + (r div 64) mod 64), char_of (0x80 + r mod 64)]
      else
        [char_of (0xF0 + r div 262144), char_of (0x80 + (r div 4096) mod 64),
         char_of (0x80 + (r div 64) mod 64), char_of (0x80 + r mod 64)])"

definition byte_in :: "nat \<Rightarrow> nat \<Rightarrow> char \<Rightarrow> bool" where
  "byte_in lo hi c \<longleftrightarrow> lo \<le> (of_char c :: nat) \<and> (of_char c :: nat) \<le> hi"

text \<open>The length of the well-formed UTF-8 sequence that starts a string of bytes, 0 when
  there is none (\<^verbatim>\<open>utf8.DecodeRune\<close> then yields U+FFFD and the size 1).\<close>

fun utf8_size :: "string \<Rightarrow> nat" where
  "utf8_size [] = 0"
| "utf8_size (c0 # cs) =
     (if byte_in 0xC2 0xDF c0 then
        (case cs of c1 # r \<Rightarrow> if byte_in 0x80 0xBF c1 then 2 else 0 | [] \<Rightarrow> 0)
      else if byte_in 0xE0 0xEF c0 then
        (case cs of
           c1 # c2 # r \<Rightarrow>
             if byte_in (if c0 = CHR 0xE0 then 0xA0 else 0x80) (if c0 = CHR 0xED then 0x9F else 0xBF) c1
                \<and> byte_in 0x80 0xBF c2
             then 3 else 0
         | _ \<Rightarrow> 0)
      else if byte_in 0xF0 0xF4 c0 then
        (case cs of
           c1 # c2 # c3 # r \<Rightarrow>
             if byte_in (if c0 = CHR 0xF0 then 0x90 else 0x80) (if c0 = CHR 0xF4 then 0x8F else 0xBF) c1
                \<and> byte_in 0x80 0xBF c2 \<and> byte_in 0x80 0xBF c3
             then 4 else 0
         | _ \<Rightarrow> 0)
      else 0)"

definition hexval :: "char \<Rightarrow> nat" where
  "hexval c =
     (if CHR ''0'' \<le> c \<and> c \<le> CHR ''9'' then of_char c - 48
      else if CHR ''a'' \<le> c \<and> c \<le> CHR ''f'' then of_char c - 87
      else of_char c - 55)"

text \<open>\<^verbatim>\<open>getu4\<close>: the value of a leading \<^verbatim>\<open>\uXXXX\<close>, if there is one.\<close>

definition getu4 :: "string \<Rightarrow> nat option" where
  "getu4 s =
     (case s of
        b # u # h1 # h2 # h3 # h4 # r \<Rightarrow>
          if b = CHR 0x5C \<and> u = CHR ''u'' \<and> isHex h1 \<and> isHex h2 \<and> isHex h3 \<and> isHex h4
          then Some (((hexval h1 * 16 + hexval h2) * 16 + hexval h3) * 16 + hexval h4)
          else None
      | _ \<Rightarrow> None)"

definition escapeChar :: "char \<Rightarrow> char" where
  "escapeChar e =
     (if e = CHR ''b'' then CHR 0x08 else if e = CHR ''f'' then CHR 0x0C
      else if e = CHR ''n'' then CHR 0x0A else if e = CHR ''r'' then CHR 0x0D
      else if e = CHR ''t'' then CHR 0x09 else e)"

text \<open>\<^verbatim>\<open>unquoteBytes\<close>, on the bytes between the quotes of a literal the scanner has
  accepted: escapes are decoded, a surrogate pair of \<^verbatim>\<open>\u\<close> escapes is one rune, a lone
  surrogate and every malformed UTF-8 byte become U+FFFD.\<close>

fun unquote :: "string \<Rightarrow> string" where
  "unquote [] = []"
| "unquote (c # cs) =
     (if c = CHR 0x5C then
        (case cs of
           [] \<Rightarrow> []
         | e # r \<Rightarrow>
             if e = CHR ''u'' then
               (case getu4 (c # cs) of
                  None \<Rightarrow> []
                | Some rr \<Rightarrow>
                    if 0xD800 \<le> rr \<and> rr < 0xE000 then
                      (case getu4 (drop 5 cs) of
                         Some rr1 \<Rightarrow>
                           if rr < 0xDC00 \<and> 0xDC00 \<le> rr1 \<and> rr1 < 0xE000
                           then utf8_EncodeRune ((rr - 0xD800) * 1024 + (rr1 - 0xDC00) + 0x10000)
                                @ unquote (drop 11 cs)
                           else RuneError @ unquote (drop 5 cs)
                       | None \<Rightarrow> RuneError @ unquote (drop 5 cs))
                    else utf8_EncodeRune rr @ unquote (drop 5 cs))
             else escapeChar e # unquote r)
      else if (of_char c :: nat) < 0x80 then c # unquote cs
      else if utf8_size (c # cs) = 0 then RuneError @ unquote cs
      else c # take (utf8_size (c # cs) - 1) cs @ unquote (drop (utf8_size (c # cs) - 1) cs))"

subsection \<open>encoding/json: the scanner's states\<close>

definition addLiteral :: "scanner \<Rightarrow> char \<Rightarrow> step \<Rightarrow> scanner" where
  "addLiteral s c next = s\<lparr>step := next, literal := c # literal s\<rparr>"

definition stateBeginString :: "scanner \<Rightarrow> char \<Rightarrow> scanner" where
  "stateBeginString s c =
     (if isSpace c then s
      else if c = CHR 0x22 then s\<lparr>step := InString, literal := []\<rparr>
      else scanner_error s ''looking for beginning of object key string'')"

definition stateBeginValue :: "scanner \<Rightarrow> char \<Rightarrow> scanner" where
  "stateBeginValue s c =
     (if isSpace c then s
      else if c = CHR ''{'' then pushParseState s (parseObjectKey [] None) BeginStringOrEmpty
      else if c = CHR ''['' then pushParseState s (parseArrayValue []) BeginValueOrEmpty
      else if c = CHR 0x22 then s\<lparr>step := InString, literal := []\<rparr>
      else if c = CHR ''-'' then s\<lparr>step := Neg, literal := [c]\<rparr>
      else if c = CHR ''0'' then s\<lparr>step := St0, literal := [c]\<rparr>
      else if c = CHR ''t'' then s\<lparr>step := StT\<rparr>
      else if c = CHR ''f'' then s\<lparr>step := StF\<rparr>
      else if c = CHR ''n'' then s\<lparr>step := StN\<rparr>
      else if CHR ''1'' \<le> c \<and> c \<le> CHR ''9'' then s\<lparr>step := St1, literal := [c]\<rparr>
      else scanner_error s ''looking for beginning of value'')"

text \<open>A number ends at the first byte that cannot continue it; that byte is then read
  by \<^verbatim>\<open>stateEndValue\<close>.\<close>

definition endNumber :: "scanner \<Rightarrow> char \<Rightarrow> scanner" where
  "endNumber s c = stateEndValue (storeValue (JNumber (rev (literal s))) s) c"

definition state0 :: "scanner \<Rightarrow> char \<Rightarrow> scanner" where
  "state0 s c =
     (if c = CHR ''.'' then addLiteral s c Dot
      else if c = CHR ''e'' \<or> c = CHR ''E'' then addLiteral s c StE
      else endNumber s c)"

definition stateESign :: "scanner \<Rightarrow> char \<Rightarrow> scanner" where
  "stateESign s c =
     (if isDigit c then addLiteral s c StE0
      else scanner_error s ''in exponent of numeric literal'')"

definition expect :: "scanner \<Rightarrow> char \<Rightarrow> char \<Rightarrow> step \<Rightarrow> string \<Rightarrow> scanner" where
  "expect s c want next context = (if c = want then s\<lparr>step := next\<rparr> else scanner_error s context)"

definition endLiteral :: "scanner \<Rightarrow> char \<Rightarrow> char \<Rightarrow> json \<Rightarrow> string \<Rightarrow> scanner" where
  "endLiteral s c want v context =
     (if c = want then (storeValue v s)\<lparr>step := EndValue\<rparr> else scanner_error s context)"

text \<open>\<^verbatim>\<open>s.step(s, c)\<close>: one byte is read in the current state.\<close>

definition scanner_step :: "scanner \<Rightarrow> char \<Rightarrow> scanner" where
  "scanner_step s c =
     (case step s of
        BeginValue \<Rightarrow> stateBeginValue s c
      | BeginValueOrEmpty \<Rightarrow>
          if isSpace c then s
          else if c = CHR '']'' then stateEndValue s c
          else stateBeginValue s c
      | BeginStringOrEmpty \<Rightarrow>
          if isSpace c then s
          else if c = CHR ''}'' then
            stateEndValue
              (case parseState s of
                 parseObjectKey ms k # rest \<Rightarrow> s\<lparr>parseState := parseObjectValue ms k # rest\<rparr>
               | _ \<Rightarrow> s) c
          else stateBeginString s c
      | BeginString \<Rightarrow> stateBeginString s c
      | EndValue \<Rightarrow> stateEndValue s c
      | EndTop \<Rightarrow> stateEndTop s c
      | InString \<Rightarrow>
          if c = CHR 0x22 then (storeValue (JString (unquote (rev (literal s)))) s)\<lparr>step := EndValue\<rparr>
          else if c = CHR 0x5C then addLiteral s c InStringEsc
          else if c < CHR 0x20 then scanner_error s ''in string literal''
          else addLiteral s c InString
      | InStringEsc \<Rightarrow>
          if c \<in> set [CHR ''b'', CHR ''f'', CHR ''n'', CHR ''r'', CHR ''t'', CHR 0x5C, CHR ''/'', CHR 0x22]
          then addLiteral s c InString
          else if c = CHR ''u'' then addLiteral s c InStringEscU
          else scanner_error s ''in string escape code''
      | InStringEscU \<Rightarrow>
          if isHex c then addLiteral s c InStringEscU1
          else scanner_error s ''in u hexadecimal character escape''
      | InStringEscU1 \<Rightarrow>
          if isHex c then addLiteral s c InStringEscU12
          else scanner_error s ''in u hexadecimal character escape''
      | InStringEscU12 \<Rightarrow>
          if isHex c then addLiteral s c InStringEscU123
          else scanner_error s ''in u hexadecimal character escape''
      | InStringEscU123 \<Rightarrow>
          if isHex c then addLiteral s c InString
          else scanner_error s ''in u hexadecimal character escape''
      | Neg \<Rightarrow>
          if c = CHR ''0'' then addLiteral s c St0
          else if CHR ''1'' \<le> c \<and> c \<le> CHR ''9'' then addLiteral s c St1
          else scanner_error s ''in numeric literal''
      | St1 \<Rightarrow> if isDigit c then addLiteral s c St1 else state0 s c
      | St0 \<Rightarrow> state0 s c
      | Dot \<Rightarrow>
          if isDigit c then addLiteral s c Dot0
          else scanner_error s ''after decimal point in numeric literal''
      | Dot0 \<Rightarrow>
          if isDigit c then addLiteral s c Dot0
          else if c = CHR ''e'' \<or> c = CHR ''E'' then addLiteral s c StE
          else endNumber s c
      | StE \<Rightarrow>
          if c = CHR ''+'' \<or> c = CHR ''-'' then addLiteral s c StESign
          else stateESign s c
      | StESign \<Rightarrow> stateESign s c
      | StE0 \<Rightarrow> if isDigit c then addLiteral s c StE0 else endNumber s c
      | StT \<Rightarrow> expect s c (CHR ''r'') StTr ''in literal true (expecting r)''
      | StTr \<Rightarrow> expect s c (CHR ''u'') StTru ''in literal true (expecting u)''
      | StTru \<Rightarrow> endLiteral s c (CHR ''e'') (JBool True) ''in literal true (expecting e)''
      | StF \<Rightarrow> expect s c (CHR ''a'') StFa ''in literal false (expecting a)''
      | StFa \<Rightarrow> expect s c (CHR ''l'') StFal ''in literal false (expecting l)''
      | StFal \<Rightarrow> expect s c (CHR ''s'') StFals ''in literal false (expecting s)''
      | StFals \<Rightarrow> endLiteral s c (CHR ''e'') (JBool False) ''in literal false (expecting e)''
      | StN \<Rightarrow> expect s c (CHR ''u'') StNu ''in literal null (expecting u)''
      | StNu \<Rightarrow> expect s c (CHR ''l'') StNul ''in literal null (expecting l)''
      | StNul \<Rightarrow> endLiteral s c (CHR ''l'') JNull ''in literal null (expecting l)''
      | StError \<Rightarrow> s)"

text \<open>\<^verbatim>\<open>s.eof()\<close>: the input has ended; a number or literal at the top level ends here.\<close>

definition scanner_eof :: "scanner \<Rightarrow> scanner" where
  "scanner_eof s =
     (if scanErr s \<noteq> None then s
      else if endTop s then s
      else (let s' = scanner_step s (CHR '' '')
            in if endTop s' then s'
               else if scanErr s' = None then s'\<lparr>scanErr := Some ''unexpected end of JSON input''\<rparr>
               else s'))"

text \<open>\<^verbatim>\<open>checkValid\<close>: the whole input is one JSON value between white space. The result is the
  syntax error, or the value read.\<close>

definition checkValid :: "string \<Rightarrow> string + json" where
  "checkValid data =
     (let s = scanner_eof (foldl scanner_step scanner_reset data)
      in case scanErr s of
           Some e \<Rightarrow> Inl e
         | None \<Rightarrow> (case topValue s of Some v \<Rightarrow> Inr v | None \<Rightarrow> Inl ''unexpected end of JSON input''))"

subsection \<open>Errors\<close>

text \<open>Modelled from the spec: the element type of the field \<^verbatim>\<open>errors\<close> of \<^verbatim>\<open>ClientError\<close> is
  not declared in \<^verbatim>\<open>client.go\<close>; the specification describes the field as a structured
  list of vendor-reported error messages.\<close>

record Error =
  Message :: string

text \<open>Modelled from the spec: \<^verbatim>\<open>ClientError\<close> is not declared in \<^verbatim>\<open>client.go\<close>, which uses its
  fields \<^verbatim>\<open>StatusCode\<close>, \<^verbatim>\<open>errors\<close> and \<^verbatim>\<open>message\<close>: an HTTP status code plus either a
  structured list of vendor-reported error messages or a raw text fallback.\<close>

record ClientError =
  errors :: "Error list"
  StatusCode :: int
  message :: string

text \<open>The values of Go's \<^verbatim>\<open>error\<close> that occur. A nil \<^verbatim>\<open>error\<close> is \<open>None\<close> of
  \<open>error option\<close>. \<open>Errorf\<close> is \<^verbatim>\<open>fmt.Errorf("<text>: %w", err)\<close>.\<close>

datatype error =
    SyntaxError string
  | UnmarshalTypeError string string
  | EOF
  | ErrUnexpectedEOF
  | ErrBodyReadAfterClose
  | ErrorString string
  | EscapeError string
  | InvalidHostError string
  | url_Error string string error
  | ClientErr ClientError
  | Errorf string error

subsection \<open>encoding/json: decoding into Go values\<close>

text \<open>A decoder for a Go type takes the JSON value and the old content of the target and
  returns the new content together with the error saved while decoding
  (\<^verbatim>\<open>d.savedError\<close>: the first one; decoding goes on after it).\<close>

type_synonym 'a decoder = "json \<Rightarrow> 'a \<Rightarrow> 'a \<times> error option"

definition valueDesc :: "json \<Rightarrow> string" where
  "valueDesc v =
     (case v of
        JNull \<Rightarrow> ''null'' | JBool b \<Rightarrow> ''bool'' | JNumber n \<Rightarrow> ''number''
      | JString x \<Rightarrow> ''string'' | JArray xs \<Rightarrow> ''array'' | JObject ms \<Rightarrow> ''object'')"

definition firstError :: "error option \<Rightarrow> error option \<Rightarrow> error option" where
  "firstError saved e = (case saved of None \<Rightarrow> e | Some x \<Rightarrow> Some x)"

definition decode_string :: "string decoder" where
  "decode_string v old =
     (case v of
        JString x \<Rightarrow> (x, None)
      | JNull \<Rightarrow> (old, None)
      | _ \<Rightarrow> (old, Some (UnmarshalTypeError (valueDesc v) ''string'')))"

definition decode_bool :: "bool decoder" where
  "decode_bool v old =
     (case v of
        JBool b \<Rightarrow> (b, None)
      | JNull \<Rightarrow> (old, None)
      | _ \<Rightarrow> (old, Some (UnmarshalTypeError (valueDesc v) ''bool'')))"

text \<open>\<^verbatim>\<open>strconv.ParseInt(s, 10, 64)\<close> on a number literal the scanner has accepted: an
  optional sign and decimal digits only, within the range of a 64-bit integer.\<close>

definition digitsValue :: "string \<Rightarrow> nat" where
  "digitsValue ds = foldl (\<lambda>n c. 10 * n + (of_char c - 48)) 0 ds"

definition ParseInt :: "string \<Rightarrow> int option" where
  "ParseInt lit =
     (let neg = (lit \<noteq> [] \<and> hd lit = CHR ''-'');
          ds = (if neg then tl lit else lit);
          n = (if neg then - int (digitsValue ds) else int (digitsValue ds))
      in if ds \<noteq> [] \<and> list_all isDigit ds \<and> - (2 ^ 63) \<le> n \<and> n < 2 ^ 63 then Some n else None)"

definition decode_int :: "int decoder" where
  "decode_int v old =
     (case v of
        JNumber lit \<Rightarrow>
          (case ParseInt lit of
             Some n \<Rightarrow> (n, None)
           | None \<Rightarrow> (old, Some (UnmarshalTypeError (''number '' @ lit) ''int'')))
      | JNull \<Rightarrow> (old, None)
      | _ \<Rightarrow> (old, Some (UnmarshalTypeError (valueDesc v) ''int'')))"

text \<open>A slice: every element of a JSON array is decoded into a zero element, in order;
  \<^verbatim>\<open>null\<close> gives the nil slice. The client only decodes into slices that are still nil.\<close>

definition decode_slice :: "'a decoder \<Rightarrow> 'a \<Rightarrow> string \<Rightarrow> 'a list decoder" where
  "decode_slice elem zero ty v old =
     (case v of
        JArray xs \<Rightarrow>
          foldl (\<lambda>(acc, saved) x. case elem x zero of (y, e) \<Rightarrow> (acc @ [y], firstError saved e))
            ([], None) xs
      | JNull \<Rightarrow> ([], None)
      | _ \<Rightarrow> (old, Some (UnmarshalTypeError (valueDesc v) ty)))"

text \<open>\<^verbatim>\<open>foldName\<close>: object keys match field names without regard to case. ASCII letters
  fold to upper case; of the other runes only U+017F and U+212A fold to ASCII letters.\<close>

fun foldName :: "string \<Rightarrow> string" where
  "foldName [] = []"
| "foldName (c # cs) =
     (if CHR ''a'' \<le> c \<and> c \<le> CHR ''z'' then char_of ((of_char c :: nat) - 32) # foldName cs
      else if c = CHR 0xC5 \<and> take 1 cs = [CHR 0xBF] then CHR ''S'' # foldName (drop 1 cs)
      else if c = CHR 0xE2 \<and> take 2 cs = [CHR 0x84, CHR 0xAA] then CHR ''K'' # foldName (drop 2 cs)
      else c # foldName cs)"

text \<open>A struct: the members of a JSON object are stored in order, each into the field its
  key names (\<open>field\<close> gets the folded key; a key that names no field is skipped);
  \<^verbatim>\<open>null\<close> leaves the struct as it is.\<close>

definition decode_struct :: "(string \<Rightarrow> 'a decoder) \<Rightarrow> string \<Rightarrow> 'a decoder" where
  "decode_struct field ty v old =
     (case v of
        JObject ms \<Rightarrow>
          foldl (\<lambda>(acc, saved) (k, x). case field (foldName k) x acc of (acc', e) \<Rightarrow> (acc', firstError saved e))
            (old, None) ms
      | JNull \<Rightarrow> (old, None)
      | _ \<Rightarrow> (old, Some (UnmarshalTypeError (valueDesc v) ty)))"

text \<open>\<^verbatim>\<open>json.Unmarshal(data, &v)\<close>: the input is checked first; only valid input is decoded.\<close>

definition json_Unmarshal :: "'a decoder \<Rightarrow> string \<Rightarrow> 'a \<Rightarrow> 'a \<times> error option" where
  "json_Unmarshal dec data v =
     (case checkValid data of
        Inl e \<Rightarrow> (v, Some (SyntaxError e))
      | Inr j \<Rightarrow> dec j v)"

subsection \<open>io: response bodies\<close>

text \<open>A response body is a stream: every \<^verbatim>\<open>Read\<close> hands over the next chunk of bytes;
  after the last chunk \<^verbatim>\<open>Read\<close> reports \<^verbatim>\<open>io.EOF\<close> (\<open>readErr\<close> is \<open>None\<close>) or the error
  the transport ran into. \<open>closed\<close> records \<^verbatim>\<open>Close\<close>.\<close>

record Body =
  pending :: "string list"
  readErr :: "error option"
  closed :: bool

definition Close :: "Body \<Rightarrow> Body" where
  "Close b = b\<lparr>closed := True\<rparr>"

text \<open>\<^verbatim>\<open>io.ReadAll\<close> reads until \<^verbatim>\<open>Read\<close> reports an error, and returns the bytes read up
  to there, with the error unless it is \<^verbatim>\<open>io.EOF\<close>.\<close>

definition io_ReadAll :: "Body \<Rightarrow> (string \<times> error option) \<times> Body" where
  "io_ReadAll b =
     (if closed b then (([], Some ErrBodyReadAfterClose), b)
      else ((concat (pending b), readErr b), b\<lparr>pending := []\<rparr>))"

subsection \<open>encoding/json: the stream decoder\<close>

text \<open>\<^verbatim>\<open>Decoder.readValue\<close> scans the buffer up to the end of the first value, and reads
  another chunk whenever the buffer ends before that.\<close>

definition scanOne :: "scanner \<Rightarrow> char \<Rightarrow> scanner" where
  "scanOne s c = (if endTop s \<or> scanErr s \<noteq> None then s else scanner_step s c)"

definition scanBuffer :: "string \<Rightarrow> scanner" where
  "scanBuffer buf = foldl scanOne scanner_reset buf"

fun refill :: "string \<Rightarrow> string list \<Rightarrow> string \<times> string list" where
  "refill buf [] = (buf, [])"
| "refill buf (c # cs) =
     (if endTop (scanBuffer buf) \<or> scanErr (scanBuffer buf) \<noteq> None then (buf, c # cs)
      else refill (buf @ c) cs)"

definition nonSpace :: "string \<Rightarrow> bool" where
  "nonSpace b \<longleftrightarrow> list_ex (\<lambda>c. \<not> isSpace c) b"

definition decodeTop :: "'a decoder \<Rightarrow> scanner \<Rightarrow> 'a \<Rightarrow> 'a \<times> error option" where
  "decodeTop dec s v =
     (case topValue s of
        Some j \<Rightarrow> dec j v
      | None \<Rightarrow> (v, Some (SyntaxError ''unexpected end of JSON input'')))"

text \<open>\<^verbatim>\<open>json.NewDecoder(body).Decode(&v)\<close>: the first JSON value of the stream is decoded;
  what follows it is not looked at.\<close>

definition Decoder_Decode :: "'a decoder \<Rightarrow> Body \<Rightarrow> 'a \<Rightarrow> ('a \<times> error option) \<times> Body" where
  "Decoder_Decode dec body v =
     (if closed body then ((v, Some ErrBodyReadAfterClose), body)
      else
        (case refill [] (pending body) of
           (buf, rest) \<Rightarrow>
             (let s = scanBuffer buf; body' = body\<lparr>pending := rest\<rparr>
              in if endTop s then (decodeTop dec s v, body')
                 else (case scanErr s of
                         Some e \<Rightarrow> ((v, Some (SyntaxError e)), body')
                       | None \<Rightarrow>
                           (case readErr body of
                              Some e \<Rightarrow> ((v, Some e), body')
                            | None \<Rightarrow>
                                if endTop (scanner_step s (CHR '' '')) then
                                  (decodeTop dec (scanner_step s (CHR '' '')) v, body')
                                else ((v, Some (if nonSpace buf then ErrUnexpectedEOF else EOF)), body'))))))"

subsection \<open>The error-decoding path\<close>

definition Error_field :: "string \<Rightarrow> Error decoder" where
  "Error_field key v e =
     (if key = ''MESSAGE'' then (case decode_string v (Message e) of (x, err) \<Rightarrow> (e\<lparr>Message := x\<rparr>, err))
      else (e, None))"

definition decode_Errors :: "Error list decoder" where
  "decode_Errors = decode_slice (decode_struct Error_field ''internal.Error'') \<lparr>Message = []\<rparr> ''[]internal.Error''"

text \<open>\<^verbatim>\<open>readError\<close> (client.go, lines 171-183). The error of \<^verbatim>\<open>io.ReadAll\<close> is dropped. The
  result is the error returned and the body as reading has left it.\<close>

definition readError :: "Body \<Rightarrow> int \<Rightarrow> error option \<times> Body" where
  "readError body statusCode =
     (case io_ReadAll body of
        ((bodyBytes, _), body') \<Rightarrow>
          (let cErr = \<lparr>errors = [], StatusCode = statusCode, message = []\<rparr>
           in case json_Unmarshal decode_Errors bodyBytes (errors cErr) of
                (errs, Some err) \<Rightarrow> (Some (ClientErr (cErr\<lparr>errors := errs, message := bodyBytes\<rparr>)), body')
              | (errs, None) \<Rightarrow> (Some (ClientErr (cErr\<lparr>errors := errs\<rparr>)), body')))"

subsection \<open>strings and path\<close>

text \<open>\<^verbatim>\<open>strings.Cut(s, sep)\<close> for a separator of one byte.\<close>

definition Cut :: "string \<Rightarrow> char \<Rightarrow> string \<times> string \<times> bool" where
  "Cut s sep = (takeWhile (\<lambda>x. x \<noteq> sep) s, drop 1 (dropWhile (\<lambda>x. x \<noteq> sep) s), sep \<in> set s)"

text \<open>\<^verbatim>\<open>strings.LastIndex(s, sep)\<close> for a separator of one byte; \<open>None\<close> is -1.\<close>

definition LastIndex :: "string \<Rightarrow> char \<Rightarrow> nat option" where
  "LastIndex s sep =
     (if sep \<in> set s then Some (length s - 1 - length (takeWhile (\<lambda>x. x \<noteq> sep) (rev s))) else None)"

fun Index :: "string \<Rightarrow> string \<Rightarrow> nat option" where
  "Index [] sub = (if sub = [] then Some 0 else None)"
| "Index (c # cs) sub =
     (if take (length sub) (c # cs) = sub then Some 0
      else (case Index cs sub of Some i \<Rightarrow> Some (Suc i) | None \<Rightarrow> None))"

definition HasPrefix :: "string \<Rightarrow> string \<Rightarrow> bool" where
  "HasPrefix s pre \<longleftrightarrow> take (length pre) s = pre"

definition HasSuffix :: "string \<Rightarrow> string \<Rightarrow> bool" where
  "HasSuffix s suf \<longleftrightarrow> length suf \<le> length s \<and> drop (length s - length suf) s = suf"

definition ToLower :: "string \<Rightarrow> string" where
  "ToLower s = map (\<lambda>c. if CHR ''A'' \<le> c \<and> c \<le> CHR ''Z'' then char_of ((of_char c :: nat) + 32) else c) s"

fun split :: "char \<Rightarrow> string \<Rightarrow> string list" where
  "split sep [] = [[]]"
| "split sep (c # cs) =
     (if c = sep then [] # split sep cs
      else (case split sep cs of x # xs \<Rightarrow> (c # x) # xs | [] \<Rightarrow> [[c]]))"

fun joinWith :: "string \<Rightarrow> string list \<Rightarrow> string" where
  "joinWith sep [] = []"
| "joinWith sep [x] = x"
| "joinWith sep (x # y # ys) = x @ sep @ joinWith sep (y # ys)"

text \<open>\<^verbatim>\<open>path.Clean\<close>, on the elements between slashes: empty elements and \<^verbatim>\<open>.\<close> are
  dropped, \<^verbatim>\<open>..\<close> removes the element before it, is dropped at the root of a rooted path
  and is kept at the start of a relative one. \<open>out\<close> holds the elements kept, last first.\<close>

definition cleanStep :: "bool \<Rightarrow> string list \<Rightarrow> string \<Rightarrow> string list" where
  "cleanStep rooted out e =
     (if e = [] \<or> e = ''.'' then out
      else if e = ''..'' then
        (if out \<noteq> [] \<and> hd out \<noteq> ''..'' then tl out
         else if \<not> rooted then ''..'' # out
         else out)
      else e # out)"

definition path_Clean :: "string \<Rightarrow> string" where
  "path_Clean p =
     (if p = [] then ''.''
      else (let rooted = (hd p = CHR ''/'');
                out = rev (foldl (cleanStep rooted) [] (split (CHR ''/'') p))
            in if rooted then CHR ''/'' # joinWith ''/'' out
               else if out = [] then ''.''
               else joinWith ''/'' out))"

text \<open>\<^verbatim>\<open>path.Join\<close>: the elements are joined with slashes, leading empty ones left out,
  and the result is cleaned; no element or only empty ones give the empty string.\<close>

definition path_Join :: "string list \<Rightarrow> string" where
  "path_Join elem =
     (if concat elem = [] then []
      else path_Clean (joinWith ''/'' (dropWhile (\<lambda>e. e = []) elem)))"

subsection \<open>net/url\<close>

datatype encoding =
    encodePath | encodePathSegment | encodeHost | encodeZone
  | encodeUserPassword | encodeQueryComponent | encodeFragment

definition isAlnum :: "char \<Rightarrow> bool" where
  "isAlnum c \<longleftrightarrow>
     (CHR ''a'' \<le> c \<and> c \<le> CHR ''z'') \<or> (CHR ''A'' \<le> c \<and> c \<le> CHR ''Z'') \<or> (CHR ''0'' \<le> c \<and> c \<le> CHR ''9'')"

definition shouldEscape :: "char \<Rightarrow> encoding \<Rightarrow> bool" where
  "shouldEscape c mode =
     (if isAlnum c then False
      else if (mode = encodeHost \<or> mode = encodeZone)
              \<and> c \<in> set (''!$&()*+,;=:[]<>'' @ [CHR 0x27, CHR 0x22]) then False
      else if c \<in> set ''-_.~'' then False
      else if c \<in> set ''$&+,/:;=?@'' then
        (case mode of
           encodePath \<Rightarrow> c = CHR ''?''
         | encodePathSegment \<Rightarrow> c \<in> set ''/;,?''
         | encodeUserPassword \<Rightarrow> c \<in> set ''@/?:''
         | encodeQueryComponent \<Rightarrow> True
         | encodeFragment \<Rightarrow> False
         | _ \<Rightarrow> True)
      else if mode = encodeFragment \<and> c \<in> set ''!()*'' then False
      else True)"

definition upperhex :: "nat \<Rightarrow> char" where
  "upperhex n = ''0123456789ABCDEF'' ! (n mod 16)"

definition escape :: "string \<Rightarrow> encoding \<Rightarrow> string" where
  "escape s mode =
     concat (map (\<lambda>c. if c = CHR '' '' \<and> mode = encodeQueryComponent then ''+''
                      else if shouldEscape c mode
                      then [CHR ''%'', upperhex ((of_char c :: nat) div 16), upperhex ((of_char c :: nat) mod 16)]
                      else [c]) s)"

text \<open>\<^verbatim>\<open>unescape\<close>, first pass: every \<^verbatim>\<open>%\<close> is followed by two hexadecimal digits, and a host
  has no byte that would need escaping.\<close>

fun unescape_check :: "encoding \<Rightarrow> string \<Rightarrow> error option" where
  "unescape_check mode [] = None"
| "unescape_check mode (c # cs) =
     (if c = CHR ''%'' then
        (case cs of
           a # b # rest \<Rightarrow>
             if \<not> (isHex a \<and> isHex b) then Some (EscapeError [c, a, b])
             else if mode = encodeHost \<and> hexval a < 8 \<and> [c, a, b] \<noteq> ''%25'' then Some (EscapeError [c, a, b])
             else if mode = encodeZone \<and> [c, a, b] \<noteq> ''%25''
                     \<and> char_of (hexval a * 16 + hexval b) \<noteq> CHR '' ''
                     \<and> shouldEscape (char_of (hexval a * 16 + hexval b)) encodeHost
             then Some (EscapeError [c, a, b])
             else unescape_check mode rest
         | _ \<Rightarrow> Some (EscapeError (c # cs)))
      else if (mode = encodeHost \<or> mode = encodeZone) \<and> (of_char c :: nat) < 0x80 \<and> c \<noteq> CHR ''+''
              \<and> shouldEscape c encodeHost
      then Some (InvalidHostError [c])
      else unescape_check mode cs)"

fun unescape_bytes :: "encoding \<Rightarrow> string \<Rightarrow> string" where
  "unescape_bytes mode [] = []"
| "unescape_bytes mode (c # cs) =
     (if c = CHR ''%'' then
        (case cs of
           a # b # rest \<Rightarrow> char_of (hexval a * 16 + hexval b) # unescape_bytes mode rest
         | _ \<Rightarrow> [])
      else if c = CHR ''+'' \<and> mode = encodeQueryComponent then CHR '' '' # unescape_bytes mode cs
      else c # unescape_bytes mode cs)"

definition unescape :: "string \<Rightarrow> encoding \<Rightarrow> error + string" where
  "unescape s mode =
     (case unescape_check mode s of
        Some e \<Rightarrow> Inl e
      | None \<Rightarrow> Inr (unescape_bytes mode s))"

datatype Userinfo = Userinfo (username: string) (password: "string option")

record URL =
  Scheme :: string
  Opaque :: string
  User :: "Userinfo option"
  Host :: string
  Path :: string
  RawPath :: string
  OmitHost :: bool
  ForceQuery :: bool
  RawQuery :: string
  Fragment :: string
  RawFragment :: string

definition URL_zero :: URL where
  "URL_zero =
     \<lparr>Scheme = [], Opaque = [], User = None, Host = [], Path = [], RawPath = [], OmitHost = False,
      ForceQuery = False, RawQuery = [], Fragment = [], RawFragment = []\<rparr>"

text \<open>\<^verbatim>\<open>getScheme\<close>: the scheme before the first colon, if the bytes before it can be one.\<close>

fun getScheme_from :: "nat \<Rightarrow> string \<Rightarrow> string \<Rightarrow> error + string \<times> string" where
  "getScheme_from i rawURL [] = Inr ([], rawURL)"
| "getScheme_from i rawURL (c # cs) =
     (if (CHR ''a'' \<le> c \<and> c \<le> CHR ''z'') \<or> (CHR ''A'' \<le> c \<and> c \<le> CHR ''Z'') then getScheme_from (Suc i) rawURL cs
      else if (CHR ''0'' \<le> c \<and> c \<le> CHR ''9'') \<or> c = CHR ''+'' \<or> c = CHR ''-'' \<or> c = CHR ''.'' then
        (if i = 0 then Inr ([], rawURL) else getScheme_from (Suc i) rawURL cs)
      else if c = CHR '':'' then
        (if i = 0 then Inl (ErrorString ''missing protocol scheme'') else Inr (take i rawURL, cs))
      else Inr ([], rawURL))"

definition getScheme :: "string \<Rightarrow> error + string \<times> string" where
  "getScheme rawURL = getScheme_from 0 rawURL rawURL"

definition stringContainsCTLByte :: "string \<Rightarrow> bool" where
  "stringContainsCTLByte s \<longleftrightarrow> list_ex (\<lambda>b. b < CHR '' '' \<or> b = CHR 0x7F) s"

definition validOptionalPort :: "string \<Rightarrow> bool" where
  "validOptionalPort port \<longleftrightarrow>
     port = [] \<or> (hd port = CHR '':'' \<and> list_all (\<lambda>b. CHR ''0'' \<le> b \<and> b \<le> CHR ''9'') (tl port))"

definition validUserinfo :: "string \<Rightarrow> bool" where
  "validUserinfo s \<longleftrightarrow> list_all (\<lambda>r. isAlnum r \<or> r \<in> set (''-._:~!$&()*+,;=%@'' @ [CHR 0x27])) s"

definition setPath :: "URL \<Rightarrow> string \<Rightarrow> error + URL" where
  "setPath u p =
     (case unescape p encodePath of
        Inl err \<Rightarrow> Inl err
      | Inr path \<Rightarrow>
          Inr (u\<lparr>Path := path, RawPath := (if p = escape path encodePath then [] else p)\<rparr>))"

definition setFragment :: "URL \<Rightarrow> string \<Rightarrow> error + URL" where
  "setFragment u f =
     (case unescape f encodeFragment of
        Inl err \<Rightarrow> Inl err
      | Inr frag \<Rightarrow>
          Inr (u\<lparr>Fragment := frag, RawFragment := (if f = escape frag encodeFragment then [] else f)\<rparr>))"

definition parseHost :: "string \<Rightarrow> error + string" where
  "parseHost host =
     (if HasPrefix host ''['' then
        (case LastIndex host (CHR '']'') of
           None \<Rightarrow> Inl (ErrorString ''missing ] in host'')
         | Some i \<Rightarrow>
             if \<not> validOptionalPort (drop (i + 1) host) then Inl (ErrorString ''invalid port after host'')
             else (case Index (take i host) ''%25'' of
                     Some zone \<Rightarrow>
                       (case unescape (take zone host) encodeHost of
                          Inl err \<Rightarrow> Inl err
                        | Inr host1 \<Rightarrow>
                            (case unescape (drop zone (take i host)) encodeZone of
                               Inl err \<Rightarrow> Inl err
                             | Inr host2 \<Rightarrow>
                                 (case unescape (drop i host) encodeHost of
                                    Inl err \<Rightarrow> Inl err
                                  | Inr host3 \<Rightarrow> Inr (host1 @ host2 @ host3))))
                   | None \<Rightarrow> unescape host encodeHost))
      else (case LastIndex host (CHR '':'') of
              Some i \<Rightarrow>
                if \<not> validOptionalPort (drop i host) then Inl (ErrorString ''invalid port after host'')
                else unescape host encodeHost
            | None \<Rightarrow> unescape host encodeHost))"

definition parseAuthority :: "string \<Rightarrow> error + Userinfo option \<times> string" where
  "parseAuthority authority =
     (case LastIndex authority (CHR ''@'') of
        None \<Rightarrow> (case parseHost authority of Inl err \<Rightarrow> Inl err | Inr host \<Rightarrow> Inr (None, host))
      | Some i \<Rightarrow>
          (case parseHost (drop (i + 1) authority) of
             Inl err \<Rightarrow> Inl err
           | Inr host \<Rightarrow>
               (let userinfo = take i authority
                in if \<not> validUserinfo userinfo then Inl (ErrorString ''net/url: invalid userinfo'')
                   else if CHR '':'' \<notin> set userinfo then
                     (case unescape userinfo encodeUserPassword of
                        Inl err \<Rightarrow> Inl err
                      | Inr name \<Rightarrow> Inr (Some (Userinfo name None), host))
                   else
                     (case Cut userinfo (CHR '':'') of
                        (name, pass, found) \<Rightarrow>
                          (case unescape name encodeUserPassword of
                             Inl err \<Rightarrow> Inl err
                           | Inr name' \<Rightarrow>
                               (case unescape pass encodeUserPassword of
                                  Inl err \<Rightarrow> Inl err
                                | Inr pass' \<Rightarrow> Inr (Some (Userinfo name' (Some pass')), host)))))))"

text \<open>\<^verbatim>\<open>parse\<close>: scheme, query, authority and path of a URL without its fragment.\<close>

definition parse :: "string \<Rightarrow> bool \<Rightarrow> error + URL" where
  "parse rawURL viaRequest =
     (if stringContainsCTLByte rawURL then Inl (ErrorString ''net/url: invalid control character in URL'')
      else if rawURL = [] \<and> viaRequest then Inl (ErrorString ''empty url'')
      else if rawURL = ''*'' then Inr (URL_zero\<lparr>Path := ''*''\<rparr>)
      else
        (case getScheme rawURL of
           Inl err \<Rightarrow> Inl err
         | Inr (scheme, rest0) \<Rightarrow>
             (let force = (HasSuffix rest0 ''?'' \<and> count_list rest0 (CHR ''?'') = 1);
                  rest = (if force then butlast rest0 else fst (Cut rest0 (CHR ''?'')));
                  url = URL_zero\<lparr>Scheme := ToLower scheme, ForceQuery := force,
                          RawQuery := (if force then [] else fst (snd (Cut rest0 (CHR ''?''))))\<rparr>
              in if \<not> HasPrefix rest ''/'' \<and> Scheme url \<noteq> [] then Inr (url\<lparr>Opaque := rest\<rparr>)
                 else if \<not> HasPrefix rest ''/'' \<and> viaRequest then Inl (ErrorString ''invalid URI for request'')
                 else if \<not> HasPrefix rest ''/'' \<and> CHR '':'' \<in> set (fst (Cut rest (CHR ''/''))) then
                   Inl (ErrorString ''first path segment in URL cannot contain colon'')
                 else if (Scheme url \<noteq> [] \<or> (\<not> viaRequest \<and> \<not> HasPrefix rest ''///'')) \<and> HasPrefix rest ''//'' then
                   (case parseAuthority (takeWhile (\<lambda>x. x \<noteq> CHR ''/'') (drop 2 rest)) of
                      Inl err \<Rightarrow> Inl err
                    | Inr (user, host) \<Rightarrow>
                        setPath (url\<lparr>User := user, Host := host\<rparr>) (dropWhile (\<lambda>x. x \<noteq> CHR ''/'') (drop 2 rest)))
                 else if Scheme url \<noteq> [] \<and> HasPrefix rest ''/'' then setPath (url\<lparr>OmitHost := True\<rparr>) rest
                 else setPath url rest)))"

text \<open>\<^verbatim>\<open>url.Parse\<close>.\<close>

definition url_Parse :: "string \<Rightarrow> error + URL" where
  "url_Parse rawURL =
     (case Cut rawURL (CHR ''#'') of
        (u, frag, found) \<Rightarrow>
          (case parse u False of
             Inl err \<Rightarrow> Inl (url_Error ''parse'' u err)
           | Inr url \<Rightarrow>
               if frag = [] then Inr url
               else (case setFragment url frag of
                       Inl err \<Rightarrow> Inl (url_Error ''parse'' rawURL err)
                     | Inr url' \<Rightarrow> Inr url')))"

definition validEncoded :: "string \<Rightarrow> encoding \<Rightarrow> bool" where
  "validEncoded s mode \<longleftrightarrow>
     list_all (\<lambda>c. c \<in> set (''!$&()*+,;=:@[]%'' @ [CHR 0x27]) \<or> \<not> shouldEscape c mode) s"

definition EscapedPath :: "URL \<Rightarrow> string" where
  "EscapedPath u =
     (if RawPath u \<noteq> [] \<and> validEncoded (RawPath u) encodePath
         \<and> unescape (RawPath u) encodePath = Inr (Path u) then RawPath u
      else if Path u = ''*'' then ''*''
      else escape (Path u) encodePath)"

definition EscapedFragment :: "URL \<Rightarrow> string" where
  "EscapedFragment u =
     (if RawFragment u \<noteq> [] \<and> validEncoded (RawFragment u) encodeFragment
         \<and> unescape (RawFragment u) encodeFragment = Inr (Fragment u) then RawFragment u
      else escape (Fragment u) encodeFragment)"

definition Userinfo_String :: "Userinfo \<Rightarrow> string" where
  "Userinfo_String ui =
     escape (username ui) encodeUserPassword
     @ (case password ui of Some p \<Rightarrow> '':'' @ escape p encodeUserPassword | None \<Rightarrow> [])"

text \<open>\<^verbatim>\<open>(*URL).String\<close>.\<close>

definition URL_String :: "URL \<Rightarrow> string" where
  "URL_String u =
     (let schemePart = (if Scheme u \<noteq> [] then Scheme u @ '':'' else []);
          authority =
            (if Scheme u \<noteq> [] \<or> Host u \<noteq> [] \<or> User u \<noteq> None then
               (if OmitHost u \<and> Host u = [] \<and> User u = None then []
                else (if Host u \<noteq> [] \<or> Path u \<noteq> [] \<or> User u \<noteq> None then ''//'' else [])
                     @ (case User u of Some ui \<Rightarrow> Userinfo_String ui @ ''@'' | None \<Rightarrow> [])
                     @ (if Host u \<noteq> [] then escape (Host u) encodeHost else []))
             else []);
          path = EscapedPath u
      in schemePart
         @ (if Opaque u \<noteq> [] then Opaque u
            else authority
                 @ (if path \<noteq> [] \<and> hd path \<noteq> CHR ''/'' \<and> Host u \<noteq> [] then ''/'' else [])
                 @ (if schemePart @ authority = [] \<and> CHR '':'' \<in> set (fst (Cut path (CHR ''/''))) then ''./'' else [])
                 @ path)
         @ (if ForceQuery u \<or> RawQuery u \<noteq> [] then ''?'' @ RawQuery u else [])
         @ (if Fragment u \<noteq> [] then ''#'' @ EscapedFragment u else []))"

text \<open>\<^verbatim>\<open>(*URL).JoinPath\<close>: the elements are joined to the escaped path with \<^verbatim>\<open>path.Join\<close>; the
  error of \<^verbatim>\<open>setPath\<close> is dropped, the URL is then a copy of the receiver.\<close>

definition JoinPath :: "URL \<Rightarrow> string list \<Rightarrow> URL" where
  "JoinPath u elem =
     (let elem0 = (if HasPrefix (EscapedPath u) ''/'' then EscapedPath u else CHR ''/'' # EscapedPath u);
          p = (if HasPrefix (EscapedPath u) ''/'' then path_Join (elem0 # elem)
               else drop 1 (path_Join (elem0 # elem)));
          p' = (if HasSuffix (last (elem0 # elem)) ''/'' \<and> \<not> HasSuffix p ''/'' then p @ ''/'' else p)
      in case setPath u p' of Inl err \<Rightarrow> u | Inr url \<Rightarrow> url)"

text \<open>\<^verbatim>\<open>url.Values\<close> maps a key to its values; the keys of the list are distinct.
  \<^verbatim>\<open>Values.Encode\<close> writes \<^verbatim>\<open>key=value\<close> pairs sorted by key.\<close>

type_synonym Values = "(string \<times> string list) list"

fun Values_Add :: "Values \<Rightarrow> string \<Rightarrow> string \<Rightarrow> Values" where
  "Values_Add [] key x = [(key, [x])]"
| "Values_Add ((k, xs) # v) key x =
     (if k = key then (k, xs @ [x]) # v else (k, xs) # Values_Add v key x)"

definition QueryEscape :: "string \<Rightarrow> string" where
  "QueryEscape s = escape s encodeQueryComponent"

definition Values_Encode :: "Values \<Rightarrow> string" where
  "Values_Encode v =
     joinWith ''&''
       (concat (map (\<lambda>k. map (\<lambda>x. QueryEscape k @ ''='' @ QueryEscape x)
                            (case map_of v k of Some xs \<Rightarrow> xs | None \<Rightarrow> []))
                    (sort (map fst v))))"

subsection \<open>net/http\<close>

definition validHeaderFieldByte :: "char \<Rightarrow> bool" where
  "validHeaderFieldByte c \<longleftrightarrow> isAlnum c \<or> c \<in> set (''!#$%&*+-.^_`|~'' @ [CHR 0x27])"

fun canonicalCase :: "bool \<Rightarrow> string \<Rightarrow> string" where
  "canonicalCase upper [] = []"
| "canonicalCase upper (c # cs) =
     (let c' = (if upper \<and> CHR ''a'' \<le> c \<and> c \<le> CHR ''z'' then char_of ((of_char c :: nat) - 32)
                else if \<not> upper \<and> CHR ''A'' \<le> c \<and> c \<le> CHR ''Z'' then char_of ((of_char c :: nat) + 32)
                else c)
      in c' # canonicalCase (c' = CHR ''-'') cs)"

text \<open>\<^verbatim>\<open>textproto.CanonicalMIMEHeaderKey\<close>: a key with a byte that is not a token byte is
  left as it is.\<close>

definition CanonicalMIMEHeaderKey :: "string \<Rightarrow> string" where
  "CanonicalMIMEHeaderKey s = (if list_all validHeaderFieldByte s then canonicalCase True s else s)"

type_synonym Header = "string \<rightharpoonup> string list"

definition Header_Set :: "Header \<Rightarrow> string \<Rightarrow> string \<Rightarrow> Header" where
  "Header_Set h key v = h(CanonicalMIMEHeaderKey key \<mapsto> [v])"

definition Header_Get :: "Header \<Rightarrow> string \<Rightarrow> string" where
  "Header_Get h key = (case h (CanonicalMIMEHeaderKey key) of Some (v # vs) \<Rightarrow> v | _ \<Rightarrow> [])"

text \<open>A \<^verbatim>\<open>context.Context\<close> is opaque to the client; a nil context is \<open>None\<close>.\<close>

datatype Context = Context string

record Request =
  Method :: string
  URL :: URL
  Header :: Header
  ReqBody :: "string option"
  Ctx :: Context

record Response =
  resp_StatusCode :: int
  resp_Body :: Body

definition validMethod :: "string \<Rightarrow> bool" where
  "validMethod method \<longleftrightarrow> method \<noteq> [] \<and> list_all validHeaderFieldByte method"

definition removeEmptyPort :: "string \<Rightarrow> string" where
  "removeEmptyPort host =
     (if (case LastIndex host (CHR '':'') of
            None \<Rightarrow> False
          | Some i \<Rightarrow> (case LastIndex host (CHR '']'') of None \<Rightarrow> True | Some j \<Rightarrow> j < i))
         \<and> HasSuffix host '':''
      then butlast host else host)"

text \<open>\<^verbatim>\<open>http.NewRequestWithContext\<close>.\<close>

definition NewRequestWithContext ::
  "Context option \<Rightarrow> string \<Rightarrow> string \<Rightarrow> string option \<Rightarrow> error + Request" where
  "NewRequestWithContext ctx method url body =
     (let method' = (if method = [] then ''GET'' else method)
      in if \<not> validMethod method' then Inl (ErrorString ''net/http: invalid method'')
         else (case ctx of
                 None \<Rightarrow> Inl (ErrorString ''net/http: nil Context'')
               | Some cx \<Rightarrow>
                   (case url_Parse url of
                      Inl err \<Rightarrow> Inl err
                    | Inr u \<Rightarrow>
                        Inr \<lparr>Method = method', URL = u\<lparr>Host := removeEmptyPort (Host u)\<rparr>,
                             Header = Map.empty, ReqBody = body, Ctx = cx\<rparr>)))"

definition MethodGet :: string where "MethodGet = ''GET''"
definition MethodPatch :: string where "MethodPatch = ''PATCH''"
definition MethodDelete :: string where "MethodDelete = ''DELETE''"
definition StatusOK :: int where "StatusOK = 200"

subsection \<open>The data model\<close>

text \<open>Modelled from the spec: \<^verbatim>\<open>Zone\<close> is not declared in \<^verbatim>\<open>client.go\<close>; the specification
  gives it the identifier and the name of a DNS zone.\<close>

record Zone =
  zone_ID :: string
  zone_Name :: string

text \<open>Modelled from the spec: \<^verbatim>\<open>Record\<close> is not declared in \<^verbatim>\<open>client.go\<close>; the
  specification gives it a name, type, content, TTL and optional metadata (priority,
  disabled flag), and a vendor-assigned identifier.\<close>

record Record =
  record_ID :: string
  record_Name :: string
  record_Type :: string
  record_Content :: string
  record_TTL :: int
  record_Prio :: int
  record_Disabled :: bool

text \<open>Modelled from the spec: \<^verbatim>\<open>CustomerZone\<close> is not declared in \<^verbatim>\<open>client.go\<close>, which reads
  its field \<^verbatim>\<open>Records\<close>; the specification describes a zone plus its embedded list of
  records.\<close>

record CustomerZone =
  cz_ID :: string
  cz_Name :: string
  Records :: "Record list"

text \<open>Modelled from the spec: \<^verbatim>\<open>RecordsFilter\<close> is not declared in \<^verbatim>\<open>client.go\<close>; the
  specification describes a set of query parameters, each filter field mapping to one
  query parameter, zero-value fields being omitted. The model lists the fields in the
  order of their declaration, each with the name of its query parameter and its value.\<close>

type_synonym RecordsFilter = "(string \<times> string) list"

definition Zone_field :: "string \<Rightarrow> Zone decoder" where
  "Zone_field key v z =
     (if key = ''ID'' then (case decode_string v (zone_ID z) of (x, err) \<Rightarrow> (z\<lparr>zone_ID := x\<rparr>, err))
      else if key = ''NAME'' then (case decode_string v (zone_Name z) of (x, err) \<Rightarrow> (z\<lparr>zone_Name := x\<rparr>, err))
      else (z, None))"

definition decode_Zones :: "Zone list decoder" where
  "decode_Zones =
     decode_slice (decode_struct Zone_field ''internal.Zone'') \<lparr>zone_ID = [], zone_Name = []\<rparr> ''[]internal.Zone''"

definition Record_zero :: Record where
  "Record_zero =
     \<lparr>record_ID = [], record_Name = [], record_Type = [], record_Content = [], record_TTL = 0,
      record_Prio = 0, record_Disabled = False\<rparr>"

definition Record_field :: "string \<Rightarrow> Record decoder" where
  "Record_field key v r =
     (if key = ''ID'' then (case decode_string v (record_ID r) of (x, err) \<Rightarrow> (r\<lparr>record_ID := x\<rparr>, err))
      else if key = ''NAME'' then (case decode_string v (record_Name r) of (x, err) \<Rightarrow> (r\<lparr>record_Name := x\<rparr>, err))
      else if key = ''TYPE'' then (case decode_string v (record_Type r) of (x, err) \<Rightarrow> (r\<lparr>record_Type := x\<rparr>, err))
      else if key = ''CONTENT'' then
        (case decode_string v (record_Content r) of (x, err) \<Rightarrow> (r\<lparr>record_Content := x\<rparr>, err))
      else if key = ''TTL'' then (case decode_int v (record_TTL r) of (x, err) \<Rightarrow> (r\<lparr>record_TTL := x\<rparr>, err))
      else if key = ''PRIO'' then (case decode_int v (record_Prio r) of (x, err) \<Rightarrow> (r\<lparr>record_Prio := x\<rparr>, err))
      else if key = ''DISABLED'' then
        (case decode_bool v (record_Disabled r) of (x, err) \<Rightarrow> (r\<lparr>record_Disabled := x\<rparr>, err))
      else (r, None))"

definition decode_Records :: "Record list decoder" where
  "decode_Records = decode_slice (decode_struct Record_field ''internal.Record'') Record_zero ''[]internal.Record''"

definition CustomerZone_zero :: CustomerZone where
  "CustomerZone_zero = \<lparr>cz_ID = [], cz_Name = [], Records = []\<rparr>"

definition CustomerZone_field :: "string \<Rightarrow> CustomerZone decoder" where
  "CustomerZone_field key v z =
     (if key = ''ID'' then (case decode_string v (cz_ID z) of (x, err) \<Rightarrow> (z\<lparr>cz_ID := x\<rparr>, err))
      else if key = ''NAME'' then (case decode_string v (cz_Name z) of (x, err) \<Rightarrow> (z\<lparr>cz_Name := x\<rparr>, err))
      else if key = ''RECORDS'' then (case decode_Records v (Records z) of (x, err) \<Rightarrow> (z\<lparr>Records := x\<rparr>, err))
      else (z, None))"

definition decode_CustomerZone :: "CustomerZone decoder" where
  "decode_CustomerZone = decode_struct CustomerZone_field ''internal.CustomerZone''"

text \<open>\<^verbatim>\<open>querystring.Values\<close> on a filter: a field that is not empty adds its value under the
  name of its parameter. A struct of strings gives no error.\<close>

definition querystring_Values :: "RecordsFilter \<Rightarrow> error + Values" where
  "querystring_Values filter' =
     Inr (foldl (\<lambda>v (name, x). if x = [] then v else Values_Add v name x) [] filter')"

subsection \<open>The client\<close>

definition defaultBaseURL :: string where
  "defaultBaseURL = ''https://api.hosting.ionos.com/dns''"

text \<open>\<^verbatim>\<open>c.HTTPClient.Do\<close> is the transport, which is not part of the client: a function from
  the request to the response or the error of the call.\<close>

type_synonym HTTPClient = "Request \<Rightarrow> error + Response"

record Client =
  HTTPClient :: HTTPClient
  BaseURL :: URL
  apiKey :: string

text \<open>\<^verbatim>\<open>NewClient\<close> (lines 27-38). \<open>DefaultClient\<close> stands for \<^verbatim>\<open>http.DefaultClient\<close>. The result
  is the pair Go returns: the client (\<open>None\<close> is nil) and the error.\<close>

definition NewClient :: "HTTPClient \<Rightarrow> string \<Rightarrow> Client option \<times> error option" where
  "NewClient DefaultClient key =
     (case url_Parse defaultBaseURL of
        Inl err \<Rightarrow> (None, Some err)
      | Inr baseURL \<Rightarrow> (Some \<lparr>HTTPClient = DefaultClient, BaseURL = baseURL, apiKey = key\<rparr>, None))"

text \<open>\<^verbatim>\<open>makeRequest\<close> (lines 158-169).\<close>

definition makeRequest ::
  "Client \<Rightarrow> Context option \<Rightarrow> string \<Rightarrow> URL \<Rightarrow> string option \<Rightarrow> error + Request" where
  "makeRequest c ctx method endpoint body =
     (case NewRequestWithContext ctx method (URL_String endpoint) body of
        Inl err \<Rightarrow> Inl (Errorf ''failed to create request'' err)
      | Inr req \<Rightarrow>
          Inr (req\<lparr>Header :=
                 Header_Set
                   (Header_Set (Header_Set (Header req) ''Accept'' ''application/json'')
                      ''Content-Type'' ''application/json'')
                   ''X-API-Key'' (apiKey c)\<rparr>))"

text \<open>The four operations return what Go returns, together with what the call has done
  to the outside: the request handed to the transport (\<open>None\<close> when none was sent) and
  the body of the response as the call has left it (\<open>None\<close> when no response was
  received). The deferred \<^verbatim>\<open>resp.Body.Close()\<close> runs last on every path that has a
  response.\<close>

record Exchange =
  sent :: "Request option"
  respBody :: "Body option"

definition noRequest :: Exchange where
  "noRequest = \<lparr>sent = None, respBody = None\<rparr>"

definition noResponse :: "Request \<Rightarrow> Exchange" where
  "noResponse req = \<lparr>sent = Some req, respBody = None\<rparr>"

definition closing :: "Request \<Rightarrow> Body \<Rightarrow> Exchange" where
  "closing req body = \<lparr>sent = Some req, respBody = Some (Close body)\<rparr>"

text \<open>\<^verbatim>\<open>ListZones\<close> (lines 41-67).\<close>

definition ListZones :: "Client \<Rightarrow> Context option \<Rightarrow> (Zone list \<times> error option) \<times> Exchange" where
  "ListZones c ctx =
     (let endpoint = JoinPath (BaseURL c) [''v1'', ''zones'']
      in case makeRequest c ctx MethodGet endpoint None of
           Inl err \<Rightarrow> (([], Some (Errorf ''failed to create request'' err)), noRequest)
         | Inr req \<Rightarrow>
             (case HTTPClient c req of
                Inl err \<Rightarrow> (([], Some (Errorf ''failed to call API'' err)), noResponse req)
              | Inr resp \<Rightarrow>
                  if resp_StatusCode resp \<noteq> StatusOK then
                    (case readError (resp_Body resp) (resp_StatusCode resp) of
                       (e, body) \<Rightarrow> (([], e), closing req body))
                  else
                    (case Decoder_Decode decode_Zones (resp_Body resp) [] of
                       ((zones, Some err), body) \<Rightarrow>
                         (([], Some (Errorf ''failed to parse response'' err)), closing req body)
                     | ((zones, None), body) \<Rightarrow> ((zones, None), closing req body))))"

text \<open>\<^verbatim>\<open>ReplaceRecords\<close> (lines 70-95). \<open>marshal\<close> stands for \<^verbatim>\<open>json.Marshal\<close> on the records.\<close>

definition ReplaceRecords ::
  "(Record list \<Rightarrow> error + string) \<Rightarrow> Client \<Rightarrow> Context option \<Rightarrow> string \<Rightarrow> Record list
     \<Rightarrow> error option \<times> Exchange" where
  "ReplaceRecords marshal c ctx zoneID records =
     (let endpoint = JoinPath (BaseURL c) [''v1'', ''zones'', zoneID]
      in case marshal records of
           Inl err \<Rightarrow> (Some (Errorf ''failed to marshal request body'' err), noRequest)
         | Inr body \<Rightarrow>
             (case makeRequest c ctx MethodPatch endpoint (Some body) of
                Inl err \<Rightarrow> (Some (Errorf ''failed to create request'' err), noRequest)
              | Inr req \<Rightarrow>
                  (case HTTPClient c req of
                     Inl err \<Rightarrow> (Some (Errorf ''failed to call API'' err), noResponse req)
                   | Inr resp \<Rightarrow>
                       if resp_StatusCode resp \<noteq> StatusOK then
                         (case readError (resp_Body resp) (resp_StatusCode resp) of
                            (e, body') \<Rightarrow> (e, closing req body'))
                       else (None, closing req (resp_Body resp)))))"

text \<open>\<^verbatim>\<open>GetRecords\<close> (lines 98-133). A nil filter is \<open>None\<close>.\<close>

definition GetRecords ::
  "Client \<Rightarrow> Context option \<Rightarrow> string \<Rightarrow> RecordsFilter option
     \<Rightarrow> (Record list \<times> error option) \<times> Exchange" where
  "GetRecords c ctx zoneID filter' =
     (let endpoint = JoinPath (BaseURL c) [''v1'', ''zones'', zoneID]
      in case makeRequest c ctx MethodGet endpoint None of
           Inl err \<Rightarrow> (([], Some (Errorf ''failed to create request'' err)), noRequest)
         | Inr req0 \<Rightarrow>
             (case (case filter' of
                      None \<Rightarrow> Inr req0
                    | Some f \<Rightarrow>
                        (case querystring_Values f of
                           Inl errQ \<Rightarrow> Inl errQ
                         | Inr v \<Rightarrow> Inr (req0\<lparr>URL := (URL req0)\<lparr>RawQuery := Values_Encode v\<rparr>\<rparr>))) of
                Inl errQ \<Rightarrow> (([], Some errQ), noRequest)
              | Inr req \<Rightarrow>
                  (case HTTPClient c req of
                     Inl err \<Rightarrow> (([], Some (Errorf ''failed to call API'' err)), noResponse req)
                   | Inr resp \<Rightarrow>
                       if resp_StatusCode resp \<noteq> StatusOK then
                         (case readError (resp_Body resp) (resp_StatusCode resp) of
                            (e, body) \<Rightarrow> (([], e), closing req body))
                       else
                         (case Decoder_Decode decode_CustomerZone (resp_Body resp) CustomerZone_zero of
                            ((zone, Some err), body) \<Rightarrow>
                              (([], Some (Errorf ''failed to parse response'' err)), closing req body)
                          | ((zone, None), body) \<Rightarrow> ((Records zone, None), closing req body)))))"

text \<open>\<^verbatim>\<open>RemoveRecord\<close> (lines 136-156).\<close>

definition RemoveRecord ::
  "Client \<Rightarrow> Context option \<Rightarrow> string \<Rightarrow> string \<Rightarrow> error option \<times> Exchange" where
  "RemoveRecord c ctx zoneID recordID =
     (let endpoint = JoinPath (BaseURL c) [''v1'', ''zones'', zoneID, ''records'', recordID]
      in case makeRequest c ctx MethodDelete endpoint None of
           Inl err \<Rightarrow> (Some (Errorf ''failed to create request'' err), noRequest)
         | Inr req \<Rightarrow>
             (case HTTPClient c req of
                Inl err \<Rightarrow> (Some (Errorf ''failed to call API'' err), noResponse req)
              | Inr resp \<Rightarrow>
                  if resp_StatusCode resp \<noteq> StatusOK then
                    (case readError (resp_Body resp) (resp_StatusCode resp) of
                       (e, body) \<Rightarrow> (e, closing req body))
                  else (None, closing req (resp_Body resp))))"

subsection \<open>Observing a call\<close>

text \<open>The response the transport gave to the request of an exchange, if there is one.\<close>

definition received :: "Client \<Rightarrow> Exchange \<Rightarrow> Response option" where
  "received c ex =
     (case sent ex of
        None \<Rightarrow> None
      | Some req \<Rightarrow> (case HTTPClient c req of Inl err \<Rightarrow> None | Inr resp \<Rightarrow> Some resp))"

text \<open>The three headers \<^verbatim>\<open>makeRequest\<close> sets, read back with \<^verbatim>\<open>Header.Get\<close>.\<close>

definition clientHeaders :: "Request \<Rightarrow> string \<Rightarrow> bool" where
  "clientHeaders req key \<longleftrightarrow>
     Header_Get (Header req) ''X-API-Key'' = key
     \<and> Header_Get (Header req) ''Accept'' = ''application/json''
     \<and> Header_Get (Header req) ''Content-Type'' = ''application/json''"

text \<open>The URL that \<^verbatim>\<open>url.Parse\<close> returns for \<^verbatim>\<open>defaultBaseURL\<close>.\<close>

definition baseURL :: URL where
  "baseURL =
     \<lparr>Scheme = ''https'', Opaque = [], User = None, Host = ''api.hosting.ionos.com'',
      Path = ''/dns'', RawPath = [], OmitHost = False, ForceQuery = False, RawQuery = [],
      Fragment = [], RawFragment = []\<rparr>"

text \<open>A transport that answers every request with the same status code and body, and the
  background context, for running the operations on concrete inputs.\<close>

definition respond :: "int \<Rightarrow> string list \<Rightarrow> HTTPClient" where
  "respond status chunks =
     (\<lambda>req. Inr \<lparr>resp_StatusCode = status,
                  resp_Body = \<lparr>pending = chunks, readErr = None, closed = False\<rparr>\<rparr>)"

definition background :: "Context option" where
  "background = Some (Context ''Background'')"

text \<open>The response body of the zone listing example, the value it denotes, and the same
  record inside the envelope that the records endpoint returns.\<close>

definition zonesBody :: string where
  "zonesBody = ''[{\"id\":\"1\",\"name\":\"www\",\"type\":\"A\",\"content\":\"1.2.3.4\"}]''"

definition zonesValue :: json where
  "zonesValue =
     JArray [JObject [(''id'', JString ''1''), (''name'', JString ''www''), (''type'', JString ''A''),
                      (''content'', JString ''1.2.3.4'')]]"

definition envelopeBody :: string where
  "envelopeBody = ''{\"records\":[{\"id\":\"1\",\"name\":\"www\",\"type\":\"A\",\"content\":\"1.2.3.4\"}]}''"

text \<open>A path segment that \<^verbatim>\<open>JoinPath\<close> and \<^verbatim>\<open>String\<close> leave as it is: not empty, not \<^verbatim>\<open>.\<close> or
  \<^verbatim>\<open>..\<close>, without a slash, and of bytes that need no escaping in a path.\<close>

definition pathSegment :: "string \<Rightarrow> bool" where
  "pathSegment s \<longleftrightarrow>
     s \<noteq> [] \<and> s \<noteq> ''.'' \<and> s \<noteq> ''..''
     \<and> list_all (\<lambda>c. \<not> shouldEscape c encodePath \<and> c \<noteq> CHR ''/'') s"

text \<open>The method of a request and where it goes: its URL without the query.\<close>

definition requestTarget :: "Request \<Rightarrow> string \<times> string" where
  "requestTarget req =
     (Method req, Scheme (URL req) @ ''://'' @ Host (URL req) @ EscapedPath (URL req))"

text \<open>The fields of a filter that are not empty.\<close>

definition nonZero :: "RecordsFilter \<Rightarrow> RecordsFilter" where
  "nonZero f = filter (\<lambda>(name, x). x \<noteq> []) f"

text \<open>The query string the specification describes for a filter: one \<^verbatim>\<open>name=value\<close> parameter
  for each field that is not empty and no other, in the order of the names.\<close>

definition queryOf :: "RecordsFilter \<Rightarrow> string" where
  "queryOf f =
     joinWith ''&'' (map (\<lambda>(name, x). QueryEscape name @ ''='' @ QueryEscape x) (sort_key fst (nonZero f)))"

section \<open>Properties\<close>

subsection \<open>Evaluation\<close>

lemmas scanner_defs =
  scanner_eof_def scanner_step_def scanner_reset_def stateBeginValue_def stateBeginString_def
  stateEndValue_def stateEndTop_def popParseState_def storeValue_def pushParseState_def
  scanner_error_def isSpace_def isDigit_def isHex_def maxNestingDepth_def addLiteral_def
  endNumber_def state0_def stateESign_def expect_def endLiteral_def

lemmas decoder_defs =
  decode_slice_def decode_struct_def decode_string_def decode_int_def decode_bool_def
  firstError_def valueDesc_def

lemma checkValid_empty: "checkValid [] = Inl ''unexpected end of JSON input''"
  by (simp add: checkValid_def scanner_defs)

lemma checkValid_upstream_timeout:
  "checkValid ''upstream timeout'' = Inl ''looking for beginning of value''"
  by (simp add: checkValid_def scanner_defs)

subsection \<open>The error-decoding path\<close>

text \<open>
  C1. \<^verbatim>\<open>readError\<close> reads the whole body (nothing is left pending), tries to parse the
  bytes as the structured error JSON, and returns a \<^verbatim>\<open>ClientError\<close> that carries the status
  code in both cases: with the structured messages and no text when the bytes parse, with
  the raw bytes as its message when they do not.
\<close>

theorem readError_reads_parses_falls_back:
  assumes "\<not> closed body"
  shows "readError body statusCode =
           (Some (ClientErr
              (case json_Unmarshal decode_Errors (concat (pending body)) [] of
                 (errs, None) \<Rightarrow> \<lparr>errors = errs, StatusCode = statusCode, message = []\<rparr>
               | (errs, Some err) \<Rightarrow>
                   \<lparr>errors = errs, StatusCode = statusCode, message = concat (pending body)\<rparr>)),
            body\<lparr>pending := []\<rparr>)"
  using assms by (auto simp: readError_def io_ReadAll_def Let_def split: prod.splits option.splits)

theorem readError_reads_parses_falls_back_witness:
  "readError \<lparr>pending = [''[{\"message\":'', ''\"invalid key\"}]''], readErr = None, closed = False\<rparr> 401
     = (Some (ClientErr \<lparr>errors = [\<lparr>Message = ''invalid key''\<rparr>], StatusCode = 401, message = []\<rparr>),
        \<lparr>pending = [], readErr = None, closed = False\<rparr>)
   \<and> readError \<lparr>pending = [''Bad '', ''Gateway''], readErr = None, closed = False\<rparr> 502
     = (Some (ClientErr \<lparr>errors = [], StatusCode = 502, message = ''Bad Gateway''\<rparr>),
        \<lparr>pending = [], readErr = None, closed = False\<rparr>)"
  using readError_reads_parses_falls_back
      [of "\<lparr>pending = [''[{\"message\":'', ''\"invalid key\"}]''], readErr = None, closed = False\<rparr>" 401]
    readError_reads_parses_falls_back
      [of "\<lparr>pending = [''Bad '', ''Gateway''], readErr = None, closed = False\<rparr>" 502]
  by (simp add: json_Unmarshal_def checkValid_def scanner_defs decode_Errors_def decoder_defs
        Error_field_def char_of_eq_iff)

text \<open>
  C6. A body that is the text \<^verbatim>\<open>upstream timeout\<close>, in whatever chunks it arrives, is not
  JSON: the error carries the status code and that text as its message, and no structured
  messages.
\<close>

theorem readError_upstream_timeout:
  assumes "concat (pending body) = ''upstream timeout''" and "\<not> closed body"
  shows "fst (readError body statusCode) =
           Some (ClientErr \<lparr>errors = [], StatusCode = statusCode, message = ''upstream timeout''\<rparr>)"
  using assms
  by (simp add: readError_def io_ReadAll_def json_Unmarshal_def checkValid_upstream_timeout)

theorem readError_upstream_timeout_witness:
  "fst (readError \<lparr>pending = [''upstream '', ''timeout''], readErr = None, closed = False\<rparr> 504) =
     Some (ClientErr \<lparr>errors = [], StatusCode = 504, message = ''upstream timeout''\<rparr>)"
  using readError_upstream_timeout
      [of "\<lparr>pending = [''upstream '', ''timeout''], readErr = None, closed = False\<rparr>" 504]
  by simp

text \<open>
  C10. \<^verbatim>\<open>readError\<close> returns a non-nil error, a \<^verbatim>\<open>ClientError\<close> with the status code, for
  every body and status code. The error of reading is dropped: when no byte could be read,
  because the body is empty or because reading fails (whatever \<open>readErr\<close> is), the
  \<^verbatim>\<open>ClientError\<close> has the status code, no structured messages and the empty message.
\<close>

theorem readError_never_nil:
  "(\<exists>cErr. fst (readError body statusCode) = Some (ClientErr cErr) \<and> StatusCode cErr = statusCode)
   \<and> (concat (pending body) = [] \<longrightarrow>
        fst (readError body statusCode) =
          Some (ClientErr \<lparr>errors = [], StatusCode = statusCode, message = []\<rparr>))"
proof (intro conjI impI)
  show "\<exists>cErr. fst (readError body statusCode) = Some (ClientErr cErr) \<and> StatusCode cErr = statusCode"
    by (auto simp: readError_def Let_def split: prod.splits option.splits)
next
  assume "concat (pending body) = []"
  then show "fst (readError body statusCode) =
               Some (ClientErr \<lparr>errors = [], StatusCode = statusCode, message = []\<rparr>)"
    by (simp add: readError_def io_ReadAll_def json_Unmarshal_def checkValid_empty
          del: concat_eq_Nil_conv)
qed

theorem readError_never_nil_witness:
  "fst (readError \<lparr>pending = [], readErr = Some (ErrorString ''connection reset by peer''),
                   closed = False\<rparr> 503) =
     Some (ClientErr \<lparr>errors = [], StatusCode = 503, message = []\<rparr>)"
  using readError_never_nil
      [of "\<lparr>pending = [], readErr = Some (ErrorString ''connection reset by peer''), closed = False\<rparr>" 503]
  by simp

text \<open>When reading fails after some bytes, \<^verbatim>\<open>io.ReadAll\<close> still returns those bytes, and
  they are what \<^verbatim>\<open>readError\<close> parses.\<close>

lemma readError_partial_read:
  "fst (readError \<lparr>pending = [''upstream''], readErr = Some (ErrorString ''connection reset by peer''),
                   closed = False\<rparr> 503) =
     Some (ClientErr \<lparr>errors = [], StatusCode = 503, message = ''upstream''\<rparr>)"
  by (simp add: readError_def io_ReadAll_def json_Unmarshal_def checkValid_def scanner_defs)

subsection \<open>Construction\<close>

lemma url_Parse_defaultBaseURL: "url_Parse defaultBaseURL = Inr baseURL"
  by code_simp

lemma URL_String_baseURL: "URL_String baseURL = defaultBaseURL"
  by code_simp

text \<open>
  C8. \<^verbatim>\<open>NewClient\<close> returns a client and a nil error for every API key: \<^verbatim>\<open>url.Parse\<close> accepts
  the endpoint constant, so the error branch is never taken, and the \<^verbatim>\<open>BaseURL\<close> of the
  client is the parsed constant, which prints as the constant.
\<close>

theorem NewClient_never_fails:
  "NewClient DefaultClient key =
     (Some \<lparr>HTTPClient = DefaultClient, BaseURL = baseURL, apiKey = key\<rparr>, None)
   \<and> url_Parse defaultBaseURL = Inr baseURL
   \<and> URL_String baseURL = defaultBaseURL"
  by (simp add: NewClient_def url_Parse_defaultBaseURL URL_String_baseURL)

theorem NewClient_never_fails_witness:
  "NewClient (respond 200 []) ''secret'' =
     (Some \<lparr>HTTPClient = respond 200 [], BaseURL = baseURL, apiKey = ''secret''\<rparr>, None)"
  using NewClient_never_fails [of "respond 200 []" "''secret''"] by simp

subsection \<open>Status codes\<close>

lemma readError_Some: "readError body statusCode = (e, b) \<Longrightarrow> e \<noteq> None"
  by (auto simp: readError_def Let_def split: prod.splits option.splits)

lemmas exchange_defs = received_def noRequest_def noResponse_def closing_def

lemmas result_splits = sum.splits prod.splits option.splits if_splits

lemma ListZones_success:
  "snd (fst (ListZones c ctx)) = None \<Longrightarrow>
   map_option resp_StatusCode (received c (snd (ListZones c ctx))) = Some 200"
  by (auto simp: ListZones_def Let_def StatusOK_def exchange_defs split: result_splits
      dest: readError_Some)

lemma ListZones_failure:
  "received c (snd (ListZones c ctx)) = Some resp \<Longrightarrow> resp_StatusCode resp \<noteq> 200 \<Longrightarrow>
   fst (ListZones c ctx) = ([], fst (readError (resp_Body resp) (resp_StatusCode resp)))"
  by (auto simp: ListZones_def Let_def StatusOK_def exchange_defs split: result_splits)

lemma GetRecords_success:
  "snd (fst (GetRecords c ctx zoneID f)) = None \<Longrightarrow>
   map_option resp_StatusCode (received c (snd (GetRecords c ctx zoneID f))) = Some 200"
  by (auto simp: GetRecords_def Let_def StatusOK_def exchange_defs split: result_splits
      dest: readError_Some)

lemma GetRecords_failure:
  "received c (snd (GetRecords c ctx zoneID f)) = Some resp \<Longrightarrow> resp_StatusCode resp \<noteq> 200 \<Longrightarrow>
   fst (GetRecords c ctx zoneID f) = ([], fst (readError (resp_Body resp) (resp_StatusCode resp)))"
  by (auto simp: GetRecords_def Let_def StatusOK_def exchange_defs split: result_splits)

lemma ReplaceRecords_success:
  "fst (ReplaceRecords m c ctx zoneID rs) = None \<Longrightarrow>
   map_option resp_StatusCode (received c (snd (ReplaceRecords m c ctx zoneID rs))) = Some 200"
  by (auto simp: ReplaceRecords_def Let_def StatusOK_def exchange_defs split: result_splits
      dest: readError_Some)

lemma ReplaceRecords_failure:
  "received c (snd (ReplaceRecords m c ctx zoneID rs)) = Some resp \<Longrightarrow> resp_StatusCode resp \<noteq> 200 \<Longrightarrow>
   fst (ReplaceRecords m c ctx zoneID rs) = fst (readError (resp_Body resp) (resp_StatusCode resp))"
  by (auto simp: ReplaceRecords_def Let_def StatusOK_def exchange_defs split: result_splits)

lemma RemoveRecord_success:
  "fst (RemoveRecord c ctx zoneID recordID) = None \<Longrightarrow>
   map_option resp_StatusCode (received c (snd (RemoveRecord c ctx zoneID recordID))) = Some 200"
  by (auto simp: RemoveRecord_def Let_def StatusOK_def exchange_defs split: result_splits
      dest: readError_Some)

lemma RemoveRecord_failure:
  "received c (snd (RemoveRecord c ctx zoneID recordID)) = Some resp \<Longrightarrow> resp_StatusCode resp \<noteq> 200 \<Longrightarrow>
   fst (RemoveRecord c ctx zoneID recordID) = fst (readError (resp_Body resp) (resp_StatusCode resp))"
  by (auto simp: RemoveRecord_def Let_def StatusOK_def exchange_defs split: result_splits)

text \<open>
  C3. Each of the four operations returns a nil error only if the transport answered its
  request with the status code 200; and whenever the transport answers with another
  status code, what the operation returns is the error of \<^verbatim>\<open>readError\<close> on the body and
  status code of that response (with no zones or records).
\<close>

theorem only_status_200_succeeds:
  "(snd (fst (ListZones c ctx)) = None \<longrightarrow>
      map_option resp_StatusCode (received c (snd (ListZones c ctx))) = Some 200)
   \<and> (fst (ReplaceRecords marshal c ctx zoneID records) = None \<longrightarrow>
      map_option resp_StatusCode (received c (snd (ReplaceRecords marshal c ctx zoneID records))) = Some 200)
   \<and> (snd (fst (GetRecords c ctx zoneID filter')) = None \<longrightarrow>
      map_option resp_StatusCode (received c (snd (GetRecords c ctx zoneID filter'))) = Some 200)
   \<and> (fst (RemoveRecord c ctx zoneID recordID) = None \<longrightarrow>
      map_option resp_StatusCode (received c (snd (RemoveRecord c ctx zoneID recordID))) = Some 200)
   \<and> (\<forall>resp. received c (snd (ListZones c ctx)) = Some resp \<and> resp_StatusCode resp \<noteq> 200 \<longrightarrow>
        fst (ListZones c ctx) = ([], fst (readError (resp_Body resp) (resp_StatusCode resp))))
   \<and> (\<forall>resp. received c (snd (ReplaceRecords marshal c ctx zoneID records)) = Some resp
          \<and> resp_StatusCode resp \<noteq> 200 \<longrightarrow>
        fst (ReplaceRecords marshal c ctx zoneID records) =
          fst (readError (resp_Body resp) (resp_StatusCode resp)))
   \<and> (\<forall>resp. received c (snd (GetRecords c ctx zoneID filter')) = Some resp
          \<and> resp_StatusCode resp \<noteq> 200 \<longrightarrow>
        fst (GetRecords c ctx zoneID filter') =
          ([], fst (readError (resp_Body resp) (resp_StatusCode resp))))
   \<and> (\<forall>resp. received c (snd (RemoveRecord c ctx zoneID recordID)) = Some resp
          \<and> resp_StatusCode resp \<noteq> 200 \<longrightarrow>
        fst (RemoveRecord c ctx zoneID recordID) =
          fst (readError (resp_Body resp) (resp_StatusCode resp)))"
  by (intro conjI allI impI; (elim conjE)?;
      (erule ListZones_success | erule ReplaceRecords_success | erule GetRecords_success
       | erule RemoveRecord_success | erule (1) ListZones_failure | erule (1) ReplaceRecords_failure
       | erule (1) GetRecords_failure | erule (1) RemoveRecord_failure))

theorem only_status_200_succeeds_witness:
  "fst (RemoveRecord \<lparr>HTTPClient = respond 200 [], BaseURL = baseURL, apiKey = ''secret''\<rparr> background ''z1'' ''r1'') = None
   \<and> map_option resp_StatusCode
        (received \<lparr>HTTPClient = respond 200 [], BaseURL = baseURL, apiKey = ''secret''\<rparr>
           (snd (RemoveRecord \<lparr>HTTPClient = respond 200 [], BaseURL = baseURL, apiKey = ''secret''\<rparr>
                   background ''z1'' ''r1''))) = Some 200
   \<and> received \<lparr>HTTPClient = respond 404 [''Not '', ''Found''], BaseURL = baseURL, apiKey = ''secret''\<rparr>
        (snd (ListZones \<lparr>HTTPClient = respond 404 [''Not '', ''Found''], BaseURL = baseURL, apiKey = ''secret''\<rparr>
                background))
      = Some \<lparr>resp_StatusCode = 404, resp_Body = \<lparr>pending = [''Not '', ''Found''], readErr = None, closed = False\<rparr>\<rparr>
   \<and> fst (ListZones \<lparr>HTTPClient = respond 404 [''Not '', ''Found''], BaseURL = baseURL, apiKey = ''secret''\<rparr>
             background)
      = ([], Some (ClientErr \<lparr>errors = [], StatusCode = 404, message = ''Not Found''\<rparr>))"
proof -
  let ?ok = "\<lparr>HTTPClient = respond 200 [], BaseURL = baseURL, apiKey = ''secret''\<rparr>"
  let ?nf = "\<lparr>HTTPClient = respond 404 [''Not '', ''Found''], BaseURL = baseURL, apiKey = ''secret''\<rparr>"
  have ok: "fst (RemoveRecord ?ok background ''z1'' ''r1'') = None"
    by code_simp
  have nf: "received ?nf (snd (ListZones ?nf background))
              = Some \<lparr>resp_StatusCode = 404,
                      resp_Body = \<lparr>pending = [''Not '', ''Found''], readErr = None, closed = False\<rparr>\<rparr>"
    by code_simp
  have err: "fst (readError \<lparr>pending = [''Not '', ''Found''], readErr = None, closed = False\<rparr> 404)
               = Some (ClientErr \<lparr>errors = [], StatusCode = 404, message = ''Not Found''\<rparr>)"
    by code_simp
  show ?thesis
    using only_status_200_succeeds [where c = ?ok and ctx = background and zoneID = "''z1''" and recordID = "''r1''"]
      only_status_200_succeeds [where c = ?nf and ctx = background]
      ok nf err
    by simp
qed

subsection \<open>Response bodies\<close>

lemma readError_body: "\<not> closed body \<Longrightarrow> snd (readError body statusCode) = body\<lparr>pending := []\<rparr>"
  by (auto simp: readError_def io_ReadAll_def Let_def split: prod.splits option.splits)

lemma RemoveRecord_body:
  "received c (snd (RemoveRecord c ctx zoneID recordID)) = Some resp \<Longrightarrow>
   (resp_StatusCode resp = 200 \<longrightarrow>
      fst (RemoveRecord c ctx zoneID recordID) = None
      \<and> respBody (snd (RemoveRecord c ctx zoneID recordID)) = Some ((resp_Body resp)\<lparr>closed := True\<rparr>))
   \<and> (resp_StatusCode resp \<noteq> 200 \<and> \<not> closed (resp_Body resp) \<longrightarrow>
      respBody (snd (RemoveRecord c ctx zoneID recordID))
        = Some ((resp_Body resp)\<lparr>pending := [], closed := True\<rparr>))"
  by (auto simp: RemoveRecord_def Let_def StatusOK_def Close_def exchange_defs readError_body
      split: result_splits dest: readError_body [where statusCode = "resp_StatusCode resp"])

lemma ReplaceRecords_body:
  "received c (snd (ReplaceRecords m c ctx zoneID rs)) = Some resp \<Longrightarrow>
   (resp_StatusCode resp = 200 \<longrightarrow>
      fst (ReplaceRecords m c ctx zoneID rs) = None
      \<and> respBody (snd (ReplaceRecords m c ctx zoneID rs)) = Some ((resp_Body resp)\<lparr>closed := True\<rparr>))
   \<and> (resp_StatusCode resp \<noteq> 200 \<and> \<not> closed (resp_Body resp) \<longrightarrow>
      respBody (snd (ReplaceRecords m c ctx zoneID rs))
        = Some ((resp_Body resp)\<lparr>pending := [], closed := True\<rparr>))"
  by (auto simp: ReplaceRecords_def Let_def StatusOK_def Close_def exchange_defs readError_body
      split: result_splits dest: readError_body [where statusCode = "resp_StatusCode resp"])

text \<open>
  C9, as the code has it. On a 200 response \<^verbatim>\<open>RemoveRecord\<close> and \<^verbatim>\<open>ReplaceRecords\<close> return no
  error and close the body without reading from it: what the body held stays unread. On
  every other status code the body is read to its end by \<^verbatim>\<open>readError\<close> and then closed. On
  both paths the body is closed.
\<close>

theorem success_closes_without_reading:
  "(\<forall>resp. received c (snd (RemoveRecord c ctx zoneID recordID)) = Some resp \<longrightarrow>
      (resp_StatusCode resp = 200 \<longrightarrow>
         fst (RemoveRecord c ctx zoneID recordID) = None
         \<and> respBody (snd (RemoveRecord c ctx zoneID recordID)) = Some ((resp_Body resp)\<lparr>closed := True\<rparr>))
      \<and> (resp_StatusCode resp \<noteq> 200 \<and> \<not> closed (resp_Body resp) \<longrightarrow>
         respBody (snd (RemoveRecord c ctx zoneID recordID))
           = Some ((resp_Body resp)\<lparr>pending := [], closed := True\<rparr>)))
   \<and> (\<forall>resp. received c (snd (ReplaceRecords marshal c ctx zoneID records)) = Some resp \<longrightarrow>
      (resp_StatusCode resp = 200 \<longrightarrow>
         fst (ReplaceRecords marshal c ctx zoneID records) = None
         \<and> respBody (snd (ReplaceRecords marshal c ctx zoneID records)) = Some ((resp_Body resp)\<lparr>closed := True\<rparr>))
      \<and> (resp_StatusCode resp \<noteq> 200 \<and> \<not> closed (resp_Body resp) \<longrightarrow>
         respBody (snd (ReplaceRecords marshal c ctx zoneID records))
           = Some ((resp_Body resp)\<lparr>pending := [], closed := True\<rparr>)))"
  by (intro conjI allI; rule impI; (erule RemoveRecord_body | erule ReplaceRecords_body))


theorem success_closes_without_reading_witness:
  "fst (RemoveRecord \<lparr>HTTPClient = respond 200 [''{}''], BaseURL = baseURL, apiKey = ''secret''\<rparr>
          background ''z1'' ''r1'') = None
   \<and> respBody (snd (RemoveRecord \<lparr>HTTPClient = respond 200 [''{}''], BaseURL = baseURL, apiKey = ''secret''\<rparr>
                        background ''z1'' ''r1''))
      = Some \<lparr>pending = [''{}''], readErr = None, closed = True\<rparr>
   \<and> respBody (snd (ReplaceRecords (\<lambda>rs. Inr ''[]'')
                        \<lparr>HTTPClient = respond 500 [''oops''], BaseURL = baseURL, apiKey = ''secret''\<rparr>
                        background ''z1'' []))
      = Some \<lparr>pending = [], readErr = None, closed = True\<rparr>"
proof -
  let ?ok = "\<lparr>HTTPClient = respond 200 [''{}''], BaseURL = baseURL, apiKey = ''secret''\<rparr>"
  let ?ko = "\<lparr>HTTPClient = respond 500 [''oops''], BaseURL = baseURL, apiKey = ''secret''\<rparr>"
  have ok: "received ?ok (snd (RemoveRecord ?ok background ''z1'' ''r1''))
              = Some \<lparr>resp_StatusCode = 200,
                      resp_Body = \<lparr>pending = [''{}''], readErr = None, closed = False\<rparr>\<rparr>"
    by code_simp
  have ko: "received ?ko (snd (ReplaceRecords (\<lambda>rs. Inr ''[]'') ?ko background ''z1'' []))
              = Some \<lparr>resp_StatusCode = 500,
                      resp_Body = \<lparr>pending = [''oops''], readErr = None, closed = False\<rparr>\<rparr>"
    by code_simp
  show ?thesis
    using success_closes_without_reading
        [where c = ?ok and ctx = background and zoneID = "''z1''" and recordID = "''r1''"]
      success_closes_without_reading
        [where c = ?ko and ctx = background and zoneID = "''z1''" and marshal = "\<lambda>rs. Inr ''[]''"
           and records = "[]"]
      ok ko
    by simp
qed

text \<open>C9, as the claim states it, fails: after a successful \<^verbatim>\<open>RemoveRecord\<close> or
  \<^verbatim>\<open>ReplaceRecords\<close> the body is closed with its bytes still pending.\<close>

theorem success_leaves_body_unread_counterexample:
  "fst (RemoveRecord \<lparr>HTTPClient = respond 200 [''{}''], BaseURL = baseURL, apiKey = ''secret''\<rparr>
          background ''z1'' ''r1'') = None
   \<and> respBody (snd (RemoveRecord \<lparr>HTTPClient = respond 200 [''{}''], BaseURL = baseURL, apiKey = ''secret''\<rparr>
                        background ''z1'' ''r1''))
      = Some \<lparr>pending = [''{}''], readErr = None, closed = True\<rparr>
   \<and> fst (ReplaceRecords (\<lambda>rs. Inr ''[]'') \<lparr>HTTPClient = respond 200 [''{}''], BaseURL = baseURL, apiKey = ''secret''\<rparr>
          background ''z1'' []) = None
   \<and> respBody (snd (ReplaceRecords (\<lambda>rs. Inr ''[]'') \<lparr>HTTPClient = respond 200 [''{}''], BaseURL = baseURL, apiKey = ''secret''\<rparr>
                        background ''z1'' []))
      = Some \<lparr>pending = [''{}''], readErr = None, closed = True\<rparr>"
  by code_simp


subsection \<open>Headers\<close>

lemma canonical_keys:
  "CanonicalMIMEHeaderKey ''Accept'' = ''Accept''"
  "CanonicalMIMEHeaderKey ''Content-Type'' = ''Content-Type''"
  "CanonicalMIMEHeaderKey ''X-API-Key'' = ''X-Api-Key''"
  by code_simp+

lemma makeRequest_headers:
  "makeRequest c ctx method endpoint body = Inr req \<Longrightarrow> clientHeaders req (apiKey c)"
  by (auto simp: makeRequest_def clientHeaders_def Header_Get_def Header_Set_def canonical_keys
      split: sum.splits)

lemma ListZones_headers:
  "sent (snd (ListZones c ctx)) = Some req \<Longrightarrow> clientHeaders req (apiKey c)"
  by (auto simp: ListZones_def Let_def exchange_defs split: result_splits dest: makeRequest_headers)

lemma ReplaceRecords_headers:
  "sent (snd (ReplaceRecords m c ctx zoneID rs)) = Some req \<Longrightarrow> clientHeaders req (apiKey c)"
  by (auto simp: ReplaceRecords_def Let_def exchange_defs split: result_splits dest: makeRequest_headers)

lemma GetRecords_headers:
  "sent (snd (GetRecords c ctx zoneID f)) = Some req \<Longrightarrow> clientHeaders req (apiKey c)"
  by (auto simp: GetRecords_def Let_def exchange_defs clientHeaders_def querystring_Values_def
      split: result_splits dest!: makeRequest_headers)

lemma RemoveRecord_headers:
  "sent (snd (RemoveRecord c ctx zoneID recordID)) = Some req \<Longrightarrow> clientHeaders req (apiKey c)"
  by (auto simp: RemoveRecord_def Let_def exchange_defs split: result_splits dest: makeRequest_headers)

text \<open>
  C4. For every API key, every request that an operation of a client made by \<^verbatim>\<open>NewClient\<close>
  with that key hands to the transport carries \<^verbatim>\<open>X-API-Key\<close> with exactly the key,
  \<^verbatim>\<open>Accept: application/json\<close> and \<^verbatim>\<open>Content-Type: application/json\<close>.
\<close>

theorem every_request_carries_the_key:
  assumes "fst (NewClient DefaultClient key) = Some c"
  shows "(\<forall>req. sent (snd (ListZones c ctx)) = Some req \<longrightarrow> clientHeaders req key)
       \<and> (\<forall>req. sent (snd (ReplaceRecords marshal c ctx zoneID records)) = Some req \<longrightarrow> clientHeaders req key)
       \<and> (\<forall>req. sent (snd (GetRecords c ctx zoneID filter')) = Some req \<longrightarrow> clientHeaders req key)
       \<and> (\<forall>req. sent (snd (RemoveRecord c ctx zoneID recordID)) = Some req \<longrightarrow> clientHeaders req key)"
proof -
  from assms have "apiKey c = key"
    by (auto simp: NewClient_def split: sum.splits)
  then show ?thesis
    using ListZones_headers ReplaceRecords_headers GetRecords_headers RemoveRecord_headers
    by blast
qed

theorem every_request_carries_the_key_witness:
  "fst (NewClient (respond 200 []) ''secret'')
     = Some \<lparr>HTTPClient = respond 200 [], BaseURL = baseURL, apiKey = ''secret''\<rparr>
   \<and> map_option (\<lambda>req. Header_Get (Header req) ''X-API-Key'')
        (sent (snd (RemoveRecord \<lparr>HTTPClient = respond 200 [], BaseURL = baseURL, apiKey = ''secret''\<rparr>
                      background ''z1'' ''r1'')))
      = Some ''secret''"
proof -
  let ?c = "\<lparr>HTTPClient = respond 200 [], BaseURL = baseURL, apiKey = ''secret''\<rparr>"
  have n: "fst (NewClient (respond 200 []) ''secret'') = Some ?c"
    by (simp add: NewClient_def url_Parse_defaultBaseURL)
  have "map_option Method (sent (snd (RemoveRecord ?c background ''z1'' ''r1''))) = Some ''DELETE''"
    by code_simp
  then obtain req where r: "sent (snd (RemoveRecord ?c background ''z1'' ''r1'')) = Some req"
    by blast
  from every_request_carries_the_key [OF n, where ctx = background and zoneID = "''z1''"
      and recordID = "''r1''"] r
  have "clientHeaders req ''secret''"
    by blast
  with n r show ?thesis
    by (simp add: clientHeaders_def)
qed

subsection \<open>Decoding the answers\<close>

lemma scanOne_done: "endTop s \<or> scanErr s \<noteq> None \<Longrightarrow> foldl scanOne s xs = s"
  by (induction xs) (simp_all add: scanOne_def)

lemma scanBuffer_append: "scanBuffer (a @ b) = foldl scanOne (scanBuffer a) b"
  by (simp add: scanBuffer_def)

lemma scanBuffer_done:
  "endTop (scanBuffer a) \<or> scanErr (scanBuffer a) \<noteq> None \<Longrightarrow> scanBuffer (a @ b) = scanBuffer a"
  by (simp only: scanBuffer_append scanOne_done)

lemma refill_scan:
  "refill buf cs = (buf', rest) \<Longrightarrow>
   scanBuffer buf' = scanBuffer (buf @ concat cs)
   \<and> (\<not> endTop (scanBuffer buf') \<and> scanErr (scanBuffer buf') = None \<longrightarrow> buf' = buf @ concat cs)"
proof (induction cs arbitrary: buf)
  case Nil
  then show ?case by simp
next
  case (Cons c cs)
  show ?case
  proof (cases "endTop (scanBuffer buf) \<or> scanErr (scanBuffer buf) \<noteq> None")
    case True
    with Cons.prems have eq: "buf' = buf"
      by (simp only: refill.simps if_True prod.inject)
    have "scanBuffer (buf @ concat (c # cs)) = scanBuffer buf"
      using True by (rule scanBuffer_done)
    with eq have "scanBuffer buf' = scanBuffer (buf @ concat (c # cs))"
      by (simp only:)
    moreover from True eq
    have "\<not> (\<not> endTop (scanBuffer buf') \<and> scanErr (scanBuffer buf') = None)"
      by (simp only:) blast
    ultimately show ?thesis by blast
  next
    case False
    with Cons.prems have "refill (buf @ c) cs = (buf', rest)"
      by (simp only: refill.simps if_False)
    then have "scanBuffer buf' = scanBuffer ((buf @ c) @ concat cs)
          \<and> (\<not> endTop (scanBuffer buf') \<and> scanErr (scanBuffer buf') = None \<longrightarrow>
               buf' = (buf @ c) @ concat cs)"
      by (rule Cons.IH)
    moreover have "(buf @ c) @ concat cs = buf @ concat (c # cs)"
      by simp
    ultimately show ?thesis by metis
  qed
qed

text \<open>What \<^verbatim>\<open>Decode\<close> returns depends on the bytes of the body and on how the stream ends,
  not on the chunks the bytes arrive in.\<close>

lemma Decode_complete:
  assumes "\<not> closed body" and "endTop (scanBuffer (concat (pending body)))"
    and "topValue (scanBuffer (concat (pending body))) = Some j"
  shows "fst (Decoder_Decode dec body v) = dec j v"
proof -
  obtain buf rest where r: "refill [] (pending body) = (buf, rest)"
    by (cases "refill [] (pending body)")
  have "scanBuffer buf = scanBuffer ([] @ concat (pending body))"
    using refill_scan [OF r] by (rule conjunct1)
  then have s: "scanBuffer buf = scanBuffer (concat (pending body))"
    by (simp only: append_Nil)
  have "endTop (scanBuffer buf)" and "topValue (scanBuffer buf) = Some j"
    using assms(2,3) by (simp_all only: s)
  with assms(1) show ?thesis
    by (simp add: Decoder_Decode_def r Let_def decodeTop_def)
qed


lemma scan_zonesBody:
  "endTop (scanBuffer zonesBody)" "topValue (scanBuffer zonesBody) = Some zonesValue"
  by code_simp+

lemma scan_envelope:
  "endTop (scanBuffer envelopeBody)"
  "topValue (scanBuffer envelopeBody) = Some (JObject [(''records'', zonesValue)])"
  by code_simp+

lemma decode_zonesValue:
  "decode_Zones zonesValue [] = ([\<lparr>zone_ID = ''1'', zone_Name = ''www''\<rparr>], None)"
  "decode_CustomerZone zonesValue CustomerZone_zero = (CustomerZone_zero, Some (UnmarshalTypeError ''array'' ''internal.CustomerZone''))"
  "decode_CustomerZone (JObject [(''records'', zonesValue)]) CustomerZone_zero
     = (CustomerZone_zero\<lparr>Records := [\<lparr>record_ID = ''1'', record_Name = ''www'', record_Type = ''A'',
           record_Content = ''1.2.3.4'', record_TTL = 0, record_Prio = 0, record_Disabled = False\<rparr>]\<rparr>, None)"
  by code_simp+

lemma ListZones_ok:
  "received c (snd (ListZones c ctx)) = Some resp \<Longrightarrow> resp_StatusCode resp = 200 \<Longrightarrow>
   fst (ListZones c ctx) =
     (case fst (Decoder_Decode decode_Zones (resp_Body resp) []) of
        (zones, Some err) \<Rightarrow> ([], Some (Errorf ''failed to parse response'' err))
      | (zones, None) \<Rightarrow> (zones, None))"
  by (auto simp: ListZones_def Let_def StatusOK_def exchange_defs split: result_splits)

lemma GetRecords_ok:
  "received c (snd (GetRecords c ctx zoneID f)) = Some resp \<Longrightarrow> resp_StatusCode resp = 200 \<Longrightarrow>
   fst (GetRecords c ctx zoneID f) =
     (case fst (Decoder_Decode decode_CustomerZone (resp_Body resp) CustomerZone_zero) of
        (zone, Some err) \<Rightarrow> ([], Some (Errorf ''failed to parse response'' err))
      | (zone, None) \<Rightarrow> (Records zone, None))"
  by (auto simp: GetRecords_def Let_def StatusOK_def exchange_defs split: result_splits)


text \<open>
  C2, as the code has it. Given a 200 response whose body is the JSON array of the example,
  in whatever chunks it arrives, \<^verbatim>\<open>ListZones\<close> succeeds and returns one zone, with the id
  \<^verbatim>\<open>1\<close> and the name \<^verbatim>\<open>www\<close> (the keys that name no field of a zone are skipped).
  \<^verbatim>\<open>GetRecords\<close> decodes a \<^verbatim>\<open>CustomerZone\<close> object, not an array: on that body it fails with
  "failed to parse response"; on the body that holds the same record in the \<^verbatim>\<open>records\<close> of
  an object it succeeds and returns one record with exactly the values of the example.
\<close>

theorem ListZones_decodes_array_GetRecords_needs_envelope:
  assumes "resp_StatusCode resp = 200" and "\<not> closed (resp_Body resp)"
  shows "(received c (snd (ListZones c ctx)) = Some resp \<and> concat (pending (resp_Body resp)) = zonesBody \<longrightarrow>
            fst (ListZones c ctx) = ([\<lparr>zone_ID = ''1'', zone_Name = ''www''\<rparr>], None))
       \<and> (received c (snd (GetRecords c ctx zoneID filter')) = Some resp
            \<and> concat (pending (resp_Body resp)) = zonesBody \<longrightarrow>
            fst (GetRecords c ctx zoneID filter') =
              ([], Some (Errorf ''failed to parse response''
                           (UnmarshalTypeError ''array'' ''internal.CustomerZone''))))
       \<and> (received c (snd (GetRecords c ctx zoneID filter')) = Some resp
            \<and> concat (pending (resp_Body resp)) = envelopeBody \<longrightarrow>
            fst (GetRecords c ctx zoneID filter') =
              ([\<lparr>record_ID = ''1'', record_Name = ''www'', record_Type = ''A'',
                 record_Content = ''1.2.3.4'', record_TTL = 0, record_Prio = 0,
                 record_Disabled = False\<rparr>], None))"
proof (intro conjI impI; elim conjE)
  assume r: "received c (snd (ListZones c ctx)) = Some resp"
    and b: "concat (pending (resp_Body resp)) = zonesBody"
  have d: "fst (Decoder_Decode decode_Zones (resp_Body resp) []) = decode_Zones zonesValue []"
    by (rule Decode_complete) (simp_all only: assms(2) b scan_zonesBody not_False_eq_True)
  show "fst (ListZones c ctx) = ([\<lparr>zone_ID = ''1'', zone_Name = ''www''\<rparr>], None)"
    unfolding ListZones_ok [OF r assms(1)] d decode_zonesValue by simp
next
  assume r: "received c (snd (GetRecords c ctx zoneID filter')) = Some resp"
    and b: "concat (pending (resp_Body resp)) = zonesBody"
  have d: "fst (Decoder_Decode decode_CustomerZone (resp_Body resp) CustomerZone_zero)
          = decode_CustomerZone zonesValue CustomerZone_zero"
    by (rule Decode_complete) (simp_all only: assms(2) b scan_zonesBody not_False_eq_True)
  show "fst (GetRecords c ctx zoneID filter') =
               ([], Some (Errorf ''failed to parse response''
                            (UnmarshalTypeError ''array'' ''internal.CustomerZone'')))"
    unfolding GetRecords_ok [OF r assms(1)] d decode_zonesValue by simp
next
  assume r: "received c (snd (GetRecords c ctx zoneID filter')) = Some resp"
    and b: "concat (pending (resp_Body resp)) = envelopeBody"
  have d: "fst (Decoder_Decode decode_CustomerZone (resp_Body resp) CustomerZone_zero)
          = decode_CustomerZone (JObject [(''records'', zonesValue)]) CustomerZone_zero"
    by (rule Decode_complete) (simp_all only: assms(2) b scan_envelope not_False_eq_True)
  show "fst (GetRecords c ctx zoneID filter') =
              ([\<lparr>record_ID = ''1'', record_Name = ''www'', record_Type = ''A'',
                 record_Content = ''1.2.3.4'', record_TTL = 0, record_Prio = 0,
                 record_Disabled = False\<rparr>], None)"
    unfolding GetRecords_ok [OF r assms(1)] d decode_zonesValue by simp
qed

theorem ListZones_decodes_array_GetRecords_needs_envelope_witness:
  "fst (ListZones \<lparr>HTTPClient = respond 200 [''[{\"id\":\"1\",\"name\":\"www\",'', ''\"type\":\"A\",\"content\":\"1.2.3.4\"}]''],
                   BaseURL = baseURL, apiKey = ''secret''\<rparr> background)
     = ([\<lparr>zone_ID = ''1'', zone_Name = ''www''\<rparr>], None)
   \<and> fst (GetRecords \<lparr>HTTPClient = respond 200 [envelopeBody], BaseURL = baseURL, apiKey = ''secret''\<rparr>
            background ''z1'' None)
     = ([\<lparr>record_ID = ''1'', record_Name = ''www'', record_Type = ''A'', record_Content = ''1.2.3.4'',
          record_TTL = 0, record_Prio = 0, record_Disabled = False\<rparr>], None)"
proof -
  let ?chunks = "[''[{\"id\":\"1\",\"name\":\"www\",'', ''\"type\":\"A\",\"content\":\"1.2.3.4\"}]'']"
  let ?l = "\<lparr>HTTPClient = respond 200 ?chunks, BaseURL = baseURL, apiKey = ''secret''\<rparr>"
  let ?g = "\<lparr>HTTPClient = respond 200 [envelopeBody], BaseURL = baseURL, apiKey = ''secret''\<rparr>"
  let ?rl = "\<lparr>resp_StatusCode = 200, resp_Body = \<lparr>pending = ?chunks, readErr = None, closed = False\<rparr>\<rparr>"
  let ?rg = "\<lparr>resp_StatusCode = 200, resp_Body = \<lparr>pending = [envelopeBody], readErr = None, closed = False\<rparr>\<rparr>"
  have l: "received ?l (snd (ListZones ?l background)) = Some ?rl"
    by code_simp
  have g: "received ?g (snd (GetRecords ?g background ''z1'' None)) = Some ?rg"
    by code_simp
  have cl: "concat (pending (resp_Body ?rl)) = zonesBody"
    by (simp add: zonesBody_def)
  show ?thesis
    using ListZones_decodes_array_GetRecords_needs_envelope
        [where resp = ?rl and c = ?l and ctx = background]
      ListZones_decodes_array_GetRecords_needs_envelope
        [where resp = ?rg and c = ?g and ctx = background and zoneID = "''z1''" and filter' = None]
      l g cl
    by simp
qed

text \<open>C2, as the claim states it, fails: \<^verbatim>\<open>GetRecords\<close> does not succeed on the array.\<close>

theorem GetRecords_rejects_array_counterexample:
  "fst (GetRecords \<lparr>HTTPClient = respond 200 [zonesBody], BaseURL = baseURL, apiKey = ''secret''\<rparr>
          background ''1'' None)
     = ([], Some (Errorf ''failed to parse response''
                    (UnmarshalTypeError ''array'' ''internal.CustomerZone'')))"
  by code_simp

subsection \<open>Where the requests go\<close>

lemma split_no_sep: "sep \<notin> set s \<Longrightarrow> split sep s = [s]"
  by (induction s) auto

lemma takeWhile_absent: "sep \<notin> set s \<Longrightarrow> takeWhile (\<lambda>x. x \<noteq> sep) s = s"
  by (induction s) auto

lemma dropWhile_absent: "sep \<notin> set s \<Longrightarrow> dropWhile (\<lambda>x. x \<noteq> sep) s = []"
  by (induction s) auto

lemma Cut_absent: "sep \<notin> set s \<Longrightarrow> Cut s sep = (s, [], False)"
  by (simp add: Cut_def takeWhile_absent dropWhile_absent)

lemma escape_clean: "list_all (\<lambda>c. \<not> shouldEscape c encodePath) s \<Longrightarrow> escape s encodePath = s"
  by (induction s) (simp_all add: escape_def)

lemma shouldEscape_special:
  "shouldEscape (CHR ''%'') encodePath"
  "shouldEscape (CHR ''?'') encodePath" "shouldEscape (CHR ''#'') encodePath"
  "\<not> shouldEscape (CHR ''/'') encodePath"
  by code_simp+

lemma unescape_check_clean:
  "CHR ''%'' \<notin> set s \<Longrightarrow> unescape_check encodePath s = None"
  by (induction s) auto

lemma unescape_bytes_clean:
  "CHR ''%'' \<notin> set s \<Longrightarrow> unescape_bytes encodePath s = s"
  by (induction s) auto

lemma clean_absent:
  "list_all (\<lambda>c. \<not> shouldEscape c encodePath) s \<Longrightarrow>
   CHR ''%'' \<notin> set s \<and> CHR ''?'' \<notin> set s \<and> CHR ''#'' \<notin> set s"
  using shouldEscape_special by (auto simp: list_all_iff)

lemma unescape_clean:
  "list_all (\<lambda>c. \<not> shouldEscape c encodePath) s \<Longrightarrow> unescape s encodePath = Inr s"
  by (simp add: unescape_def unescape_check_clean unescape_bytes_clean clean_absent)

lemma setPath_clean:
  "list_all (\<lambda>c. \<not> shouldEscape c encodePath) p \<Longrightarrow> setPath u p = Inr (u\<lparr>Path := p, RawPath := []\<rparr>)"
  by (simp add: setPath_def unescape_clean escape_clean)


lemma clean_not_CTL:
  assumes "\<not> shouldEscape c encodePath"
  shows "\<not> (c < CHR '' '' \<or> c = CHR 0x7F)"
proof -
  from assms have "isAlnum c \<or> c \<in> set ''-_.~'' \<or> c \<in> set ''$&+,/:;=?@''"
    unfolding shouldEscape_def by (auto split: if_splits)
  then show ?thesis
    by (auto simp: isAlnum_def less_char_def less_eq_char_def)
qed

lemma clean_no_CTL:
  "list_all (\<lambda>c. \<not> shouldEscape c encodePath) s \<Longrightarrow> \<not> stringContainsCTLByte s"
  using clean_not_CTL by (auto simp: stringContainsCTLByte_def list_all_iff list_ex_iff)


lemma HasSuffix_slash: "CHR ''/'' \<notin> set s \<Longrightarrow> \<not> HasSuffix s ''/''"
proof
  assume a: "CHR ''/'' \<notin> set s" and h: "HasSuffix s ''/''"
  from h have "drop (length s - 1) s = ''/''" and "s \<noteq> []"
    by (auto simp: HasSuffix_def)
  then have "CHR ''/'' \<in> set (drop (length s - 1) s)"
    by simp
  then have "CHR ''/'' \<in> set s"
    by (rule in_set_dropD)
  with a show False by simp
qed

lemma pathSegment_facts:
  assumes "pathSegment z"
  shows "z \<noteq> []" "z \<noteq> ''.''" "z \<noteq> ''..''" "CHR ''/'' \<notin> set z"
    "list_all (\<lambda>c. \<not> shouldEscape c encodePath) z"
  using assms by (auto simp: pathSegment_def list_all_iff)

lemma EscapedPath_baseURL: "EscapedPath baseURL = ''/dns''"
  by code_simp

lemma path_Join_zone:
  assumes "pathSegment z"
  shows "path_Join [''/dns'', ''v1'', ''zones'', z] = ''/dns/v1/zones/'' @ z"
  using pathSegment_facts [OF assms]
  by (simp add: path_Join_def path_Clean_def split_no_sep cleanStep_def)

lemma split_before_sep: "sep \<notin> set a \<Longrightarrow> split sep (a @ sep # b) = a # split sep b"
  by (induction a) auto

lemma path_Join_record:
  assumes "pathSegment z" and "pathSegment r"
  shows "path_Join [''/dns'', ''v1'', ''zones'', z, ''records'', r] = ''/dns/v1/zones/'' @ z @ ''/records/'' @ r"
  using pathSegment_facts [OF assms(1)] pathSegment_facts [OF assms(2)]
  by (simp add: path_Join_def path_Clean_def split_no_sep split_before_sep cleanStep_def)

lemma clean_prefix:
  "list_all (\<lambda>c. \<not> shouldEscape c encodePath) ''/dns/v1/zones''"
  "list_all (\<lambda>c. \<not> shouldEscape c encodePath) ''/dns/v1/zones/''"
  "list_all (\<lambda>c. \<not> shouldEscape c encodePath) ''/records/''"
  by code_simp+

lemma JoinPath_zones: "JoinPath baseURL [''v1'', ''zones''] = baseURL\<lparr>Path := ''/dns/v1/zones''\<rparr>"
  by code_simp

lemma JoinPath_zone:
  assumes "pathSegment z"
  shows "JoinPath baseURL [''v1'', ''zones'', z] = baseURL\<lparr>Path := ''/dns/v1/zones/'' @ z\<rparr>"
proof -
  have c: "list_all (\<lambda>c. \<not> shouldEscape c encodePath) (''/dns/v1/zones/'' @ z)"
    using clean_prefix(2) pathSegment_facts(5) [OF assms] by (simp only: list_all_append)
  have s: "\<not> HasSuffix z ''/''"
    using pathSegment_facts(4) [OF assms] by (rule HasSuffix_slash)
  have h: "HasPrefix ''/dns'' ''/''"
    by code_simp
  have b: "baseURL\<lparr>Path := ''/dns/v1/zones/'' @ z, RawPath := []\<rparr> = baseURL\<lparr>Path := ''/dns/v1/zones/'' @ z\<rparr>"
    by (simp add: baseURL_def)
  show ?thesis
    unfolding JoinPath_def EscapedPath_baseURL Let_def
    using s h
    by (simp only: path_Join_zone [OF assms] setPath_clean [OF c] if_True if_False last.simps
        list.distinct sum.case b simp_thms)
qed


lemma JoinPath_record:
  assumes "pathSegment z" and "pathSegment r"
  shows "JoinPath baseURL [''v1'', ''zones'', z, ''records'', r]
           = baseURL\<lparr>Path := ''/dns/v1/zones/'' @ z @ ''/records/'' @ r\<rparr>"
proof -
  have c: "list_all (\<lambda>c. \<not> shouldEscape c encodePath) (''/dns/v1/zones/'' @ z @ ''/records/'' @ r)"
    using clean_prefix(2,3) pathSegment_facts(5) [OF assms(1)] pathSegment_facts(5) [OF assms(2)]
    by (simp only: list_all_append)
  have s: "\<not> HasSuffix r ''/''"
    using pathSegment_facts(4) [OF assms(2)] by (rule HasSuffix_slash)
  have h: "HasPrefix ''/dns'' ''/''"
    by code_simp
  have b: "baseURL\<lparr>Path := ''/dns/v1/zones/'' @ z @ ''/records/'' @ r, RawPath := []\<rparr>
             = baseURL\<lparr>Path := ''/dns/v1/zones/'' @ z @ ''/records/'' @ r\<rparr>"
    by (simp add: baseURL_def)
  show ?thesis
    unfolding JoinPath_def EscapedPath_baseURL Let_def
    using s h
    by (simp only: path_Join_record [OF assms] setPath_clean [OF c] if_True if_False last.simps
        list.distinct sum.case b simp_thms)
qed

text \<open>A URL beneath the base URL whose path needs no escaping prints as the base URL's
  scheme and host followed by the path, and that string parses back to the URL.\<close>

lemma escape_host: "escape ''api.hosting.ionos.com'' encodeHost = ''api.hosting.ionos.com''"
  by code_simp

lemma URL_String_clean:
  assumes "list_all (\<lambda>c. \<not> shouldEscape c encodePath) (CHR ''/'' # q)"
  shows "URL_String (baseURL\<lparr>Path := CHR ''/'' # q\<rparr>) = ''https://api.hosting.ionos.com'' @ CHR ''/'' # q"
proof -
  have e: "EscapedPath (baseURL\<lparr>Path := CHR ''/'' # q\<rparr>) = CHR ''/'' # q"
    using escape_clean [OF assms] by (simp add: EscapedPath_def baseURL_def)
  show ?thesis
    unfolding URL_String_def e Let_def
    by (simp add: baseURL_def escape_host)
qed

lemma parseAuthority_host: "parseAuthority ''api.hosting.ionos.com'' = Inr (None, ''api.hosting.ionos.com'')"
  by code_simp

lemma ToLower_https: "ToLower ''https'' = ''https''"
  by code_simp

lemma url_Parse_clean:
  assumes "list_all (\<lambda>c. \<not> shouldEscape c encodePath) (CHR ''/'' # q)"
  shows "url_Parse (''https://api.hosting.ionos.com'' @ CHR ''/'' # q) = Inr (baseURL\<lparr>Path := CHR ''/'' # q\<rparr>)"
proof -
  let ?p = "CHR ''/'' # q"
  let ?s = "''https://api.hosting.ionos.com'' @ ?p"
  let ?rest = "''//api.hosting.ionos.com'' @ ?p"
  from clean_absent [OF assms] have q: "CHR ''?'' \<notin> set q" "CHR ''#'' \<notin> set q"
    by simp_all
  have hash: "Cut ?s (CHR ''#'') = (?s, [], False)"
    by (rule Cut_absent) (use q in simp)
  have quest: "Cut ?rest (CHR ''?'') = (?rest, [], False)"
    by (rule Cut_absent) (use q in simp)
  have count: "count_list ?rest (CHR ''?'') = 0"
    using q by (simp add: count_list_0_iff)
  have ctl: "\<not> stringContainsCTLByte ?s"
    using clean_no_CTL [OF assms] by (simp add: stringContainsCTLByte_def)
  have scheme: "getScheme ?s = Inr (''https'', ?rest)"
    by (simp add: getScheme_def)
  have star: "?s \<noteq> ''*''"
    by simp
  have pre: "HasPrefix ?rest ''/''" "HasPrefix ?rest ''//''"
    by (simp_all add: HasPrefix_def)
  have auth: "takeWhile (\<lambda>x. x \<noteq> CHR ''/'') (drop 2 ?rest) = ''api.hosting.ionos.com''"
    "dropWhile (\<lambda>x. x \<noteq> CHR ''/'') (drop 2 ?rest) = ?p"
    by simp_all
  have p: "parse ?s False = Inr (baseURL\<lparr>Path := ?p\<rparr>)"
    unfolding parse_def
    by (simp only: ctl star scheme quest count pre auth parseAuthority_host ToLower_https Let_def
        setPath_clean [OF assms] if_True if_False sum.case prod.case fst_conv snd_conv simp_thms
        URL.simps URL_zero_def baseURL_def list.distinct zero_neq_one)
  show ?thesis
    unfolding url_Parse_def hash
    by (simp only: p prod.case sum.case if_True simp_thms)
qed


lemma removeEmptyPort_host: "removeEmptyPort ''api.hosting.ionos.com'' = ''api.hosting.ionos.com''"
  by code_simp

lemma validMethods: "validMethod MethodGet" "validMethod MethodPatch" "validMethod MethodDelete"
  "MethodGet \<noteq> []" "MethodPatch \<noteq> []" "MethodDelete \<noteq> []"
  by code_simp+

lemma NewRequest_clean:
  assumes "list_all (\<lambda>c. \<not> shouldEscape c encodePath) (CHR ''/'' # q)"
    and "validMethod method" and "method \<noteq> []"
  shows "NewRequestWithContext (Some cx) method (URL_String (baseURL\<lparr>Path := CHR ''/'' # q\<rparr>)) body
           = Inr \<lparr>Method = method, URL = baseURL\<lparr>Path := CHR ''/'' # q\<rparr>, Header = Map.empty,
                  ReqBody = body, Ctx = cx\<rparr>"
  unfolding NewRequestWithContext_def URL_String_clean [OF assms(1)] url_Parse_clean [OF assms(1)] Let_def
  using assms(2,3) by (simp add: baseURL_def removeEmptyPort_host)

lemma makeRequest_clean:
  assumes "list_all (\<lambda>c. \<not> shouldEscape c encodePath) (CHR ''/'' # q)"
    and "validMethod method" and "method \<noteq> []"
  shows "\<exists>req. makeRequest c (Some cx) method (baseURL\<lparr>Path := CHR ''/'' # q\<rparr>) body = Inr req
           \<and> Method req = method \<and> URL req = baseURL\<lparr>Path := CHR ''/'' # q\<rparr>"
  unfolding makeRequest_def NewRequest_clean [OF assms] by simp

lemma requestTarget_clean:
  assumes "list_all (\<lambda>c. \<not> shouldEscape c encodePath) (CHR ''/'' # q)"
    and "Method req = method" and "Scheme (URL req) = ''https''" and "Host (URL req) = ''api.hosting.ionos.com''"
    and "Path (URL req) = CHR ''/'' # q" and "RawPath (URL req) = []"
  shows "requestTarget req = (method, ''https://api.hosting.ionos.com'' @ CHR ''/'' # q)"
  using assms(2-) escape_clean [OF assms(1)]
  by (simp add: requestTarget_def EscapedPath_def)


lemma ListZones_sent:
  "makeRequest c ctx MethodGet (JoinPath (BaseURL c) [''v1'', ''zones'']) None = Inr req \<Longrightarrow>
   sent (snd (ListZones c ctx)) = Some req"
  by (auto simp: ListZones_def Let_def exchange_defs split: result_splits)

lemma ReplaceRecords_sent:
  "marshal records = Inr body \<Longrightarrow>
   makeRequest c ctx MethodPatch (JoinPath (BaseURL c) [''v1'', ''zones'', zoneID]) (Some body) = Inr req \<Longrightarrow>
   sent (snd (ReplaceRecords marshal c ctx zoneID records)) = Some req"
  by (auto simp: ReplaceRecords_def Let_def exchange_defs split: result_splits)

lemma GetRecords_sent:
  "makeRequest c ctx MethodGet (JoinPath (BaseURL c) [''v1'', ''zones'', zoneID]) None = Inr req \<Longrightarrow>
   sent (snd (GetRecords c ctx zoneID f)) =
     Some (case f of
             None \<Rightarrow> req
           | Some fs \<Rightarrow>
               req\<lparr>URL := (URL req)\<lparr>RawQuery :=
                      Values_Encode (foldl (\<lambda>v (name, x). if x = [] then v else Values_Add v name x) [] fs)\<rparr>\<rparr>)"
  by (auto simp: GetRecords_def Let_def exchange_defs querystring_Values_def split: result_splits)

lemma RemoveRecord_sent:
  "makeRequest c ctx MethodDelete (JoinPath (BaseURL c) [''v1'', ''zones'', zoneID, ''records'', recordID]) None = Inr req \<Longrightarrow>
   sent (snd (RemoveRecord c ctx zoneID recordID)) = Some req"
  by (auto simp: RemoveRecord_def Let_def exchange_defs split: result_splits)

lemma requestTarget_RawQuery:
  "requestTarget (req\<lparr>URL := (URL req)\<lparr>RawQuery := x\<rparr>\<rparr>) = requestTarget req"
  by (simp add: requestTarget_def EscapedPath_def)

lemma requestTarget_beneath:
  assumes "list_all (\<lambda>c. \<not> shouldEscape c encodePath) (CHR ''/'' # q)"
    and "Method req = method" and "URL req = baseURL\<lparr>Path := CHR ''/'' # q\<rparr>"
  shows "requestTarget req = (method, ''https://api.hosting.ionos.com'' @ CHR ''/'' # q)"
  using assms(2,3) escape_clean [OF assms(1)]
  by (simp add: requestTarget_def EscapedPath_def baseURL_def)

lemma NewClient_client: "fst (NewClient DefaultClient key) = Some c \<Longrightarrow> BaseURL c = baseURL"
  by (auto simp: NewClient_def url_Parse_defaultBaseURL)

text \<open>
  C7, as the code has it. A client made by \<^verbatim>\<open>NewClient\<close>, called with a context, sends
  \<^verbatim>\<open>GET\<close> to \<^verbatim>\<open>/v1/zones\<close> for \<^verbatim>\<open>ListZones\<close>, and for every zone and record identifier that is
  a path segment (not empty, not \<^verbatim>\<open>.\<close> or \<^verbatim>\<open>..\<close>, no slash, no byte that a path escapes)
  \<^verbatim>\<open>PATCH\<close> and \<^verbatim>\<open>GET\<close> to \<^verbatim>\<open>/v1/zones/{zoneID}\<close> for \<^verbatim>\<open>ReplaceRecords\<close> and \<^verbatim>\<open>GetRecords\<close> and
  \<^verbatim>\<open>DELETE\<close> to \<^verbatim>\<open>/v1/zones/{zoneID}/records/{recordID}\<close> for \<^verbatim>\<open>RemoveRecord\<close>, all beneath
  the base URL.
\<close>

theorem operations_follow_the_interface_table:
  assumes "fst (NewClient DefaultClient key) = Some c"
    and "pathSegment zoneID" and "pathSegment recordID" and "marshal records = Inr body"
  shows "map_option requestTarget (sent (snd (ListZones c (Some ctx))))
           = Some (''GET'', ''https://api.hosting.ionos.com/dns'' @ ''/v1/zones'')
       \<and> map_option requestTarget (sent (snd (ReplaceRecords marshal c (Some ctx) zoneID records)))
           = Some (''PATCH'', ''https://api.hosting.ionos.com/dns'' @ ''/v1/zones/'' @ zoneID)
       \<and> map_option requestTarget (sent (snd (GetRecords c (Some ctx) zoneID filter')))
           = Some (''GET'', ''https://api.hosting.ionos.com/dns'' @ ''/v1/zones/'' @ zoneID)
       \<and> map_option requestTarget (sent (snd (RemoveRecord c (Some ctx) zoneID recordID)))
           = Some (''DELETE'', ''https://api.hosting.ionos.com/dns'' @ ''/v1/zones/'' @ zoneID @ ''/records/'' @ recordID)"
proof -
  note b = NewClient_client [OF assms(1)]
  have cz: "list_all (\<lambda>c. \<not> shouldEscape c encodePath) (CHR ''/'' # ''dns/v1/zones/'' @ zoneID)"
    using clean_prefix(2) pathSegment_facts(5) [OF assms(2)] by simp
  have cr: "list_all (\<lambda>c. \<not> shouldEscape c encodePath)
              (CHR ''/'' # ''dns/v1/zones/'' @ zoneID @ ''/records/'' @ recordID)"
    using clean_prefix(2,3) pathSegment_facts(5) [OF assms(2)] pathSegment_facts(5) [OF assms(3)]
    by simp
  have cl: "list_all (\<lambda>c. \<not> shouldEscape c encodePath) (CHR ''/'' # ''dns/v1/zones'')"
    using clean_prefix(1) by simp
  have jl: "JoinPath (BaseURL c) [''v1'', ''zones''] = baseURL\<lparr>Path := CHR ''/'' # ''dns/v1/zones''\<rparr>"
    by (simp add: b JoinPath_zones)
  have jz: "JoinPath (BaseURL c) [''v1'', ''zones'', zoneID]
              = baseURL\<lparr>Path := CHR ''/'' # ''dns/v1/zones/'' @ zoneID\<rparr>"
    by (simp add: b JoinPath_zone [OF assms(2)])
  have jr: "JoinPath (BaseURL c) [''v1'', ''zones'', zoneID, ''records'', recordID]
              = baseURL\<lparr>Path := CHR ''/'' # ''dns/v1/zones/'' @ zoneID @ ''/records/'' @ recordID\<rparr>"
    by (simp add: b JoinPath_record [OF assms(2,3)])
  have 1: "map_option requestTarget (sent (snd (ListZones c (Some ctx))))
             = Some (''GET'', ''https://api.hosting.ionos.com/dns'' @ ''/v1/zones'')"
  proof -
    from makeRequest_clean [OF cl validMethods(1,4)]
    obtain req where r: "makeRequest c (Some ctx) MethodGet (baseURL\<lparr>Path := CHR ''/'' # ''dns/v1/zones''\<rparr>) None = Inr req"
      and m: "Method req = MethodGet" and u: "URL req = baseURL\<lparr>Path := CHR ''/'' # ''dns/v1/zones''\<rparr>"
      by blast
    from r have "sent (snd (ListZones c (Some ctx))) = Some req"
      by (intro ListZones_sent) (simp only: jl)
    then show ?thesis
      using requestTarget_beneath [OF cl m u] by (simp add: MethodGet_def)
  qed
  have 2: "map_option requestTarget (sent (snd (ReplaceRecords marshal c (Some ctx) zoneID records)))
             = Some (''PATCH'', ''https://api.hosting.ionos.com/dns'' @ ''/v1/zones/'' @ zoneID)"
  proof -
    from makeRequest_clean [OF cz validMethods(2,5)]
    obtain req where r: "makeRequest c (Some ctx) MethodPatch
          (baseURL\<lparr>Path := CHR ''/'' # ''dns/v1/zones/'' @ zoneID\<rparr>) (Some body) = Inr req"
      and m: "Method req = MethodPatch"
      and u: "URL req = baseURL\<lparr>Path := CHR ''/'' # ''dns/v1/zones/'' @ zoneID\<rparr>"
      by blast
    have "makeRequest c (Some ctx) MethodPatch (JoinPath (BaseURL c) [''v1'', ''zones'', zoneID]) (Some body)
            = Inr req"
      using r by (simp only: jz)
    with assms(4) have "sent (snd (ReplaceRecords marshal c (Some ctx) zoneID records)) = Some req"
      by (rule ReplaceRecords_sent [where marshal = marshal and records = records])
    then show ?thesis
      using requestTarget_beneath [OF cz m u] by (simp add: MethodPatch_def)
  qed
  have 3: "map_option requestTarget (sent (snd (GetRecords c (Some ctx) zoneID filter')))
             = Some (''GET'', ''https://api.hosting.ionos.com/dns'' @ ''/v1/zones/'' @ zoneID)"
  proof -
    from makeRequest_clean [OF cz validMethods(1,4)]
    obtain req where r: "makeRequest c (Some ctx) MethodGet
          (baseURL\<lparr>Path := CHR ''/'' # ''dns/v1/zones/'' @ zoneID\<rparr>) None = Inr req"
      and m: "Method req = MethodGet"
      and u: "URL req = baseURL\<lparr>Path := CHR ''/'' # ''dns/v1/zones/'' @ zoneID\<rparr>"
      by blast
    have "makeRequest c (Some ctx) MethodGet (JoinPath (BaseURL c) [''v1'', ''zones'', zoneID]) None = Inr req"
      using r by (simp only: jz)
    from GetRecords_sent [OF this, of filter']
    have "map_option requestTarget (sent (snd (GetRecords c (Some ctx) zoneID filter'))) = Some (requestTarget req)"
      by (cases filter') (simp_all add: requestTarget_RawQuery)
    then show ?thesis
      using requestTarget_beneath [OF cz m u] by (simp add: MethodGet_def)
  qed
  have 4: "map_option requestTarget (sent (snd (RemoveRecord c (Some ctx) zoneID recordID)))
             = Some (''DELETE'', ''https://api.hosting.ionos.com/dns'' @ ''/v1/zones/'' @ zoneID @ ''/records/'' @ recordID)"
  proof -
    from makeRequest_clean [OF cr validMethods(3,6)]
    obtain req where r: "makeRequest c (Some ctx) MethodDelete
          (baseURL\<lparr>Path := CHR ''/'' # ''dns/v1/zones/'' @ zoneID @ ''/records/'' @ recordID\<rparr>) None = Inr req"
      and m: "Method req = MethodDelete"
      and u: "URL req = baseURL\<lparr>Path := CHR ''/'' # ''dns/v1/zones/'' @ zoneID @ ''/records/'' @ recordID\<rparr>"
      by blast
    from r have "sent (snd (RemoveRecord c (Some ctx) zoneID recordID)) = Some req"
      by (intro RemoveRecord_sent) (simp only: jr)
    then show ?thesis
      using requestTarget_beneath [OF cr m u] by (simp add: MethodDelete_def)
  qed
  from 1 2 3 4 show ?thesis by (intro conjI)
qed

theorem operations_follow_the_interface_table_witness:
  "map_option requestTarget
     (sent (snd (ListZones \<lparr>HTTPClient = respond 200 [], BaseURL = baseURL, apiKey = ''secret''\<rparr> background)))
     = Some (''GET'', ''https://api.hosting.ionos.com/dns/v1/zones'')
   \<and> map_option requestTarget
     (sent (snd (RemoveRecord \<lparr>HTTPClient = respond 200 [], BaseURL = baseURL, apiKey = ''secret''\<rparr>
                   background ''a1b2'' ''22af3414-abbe-9e11-5df5-66fbe8e334b4'')))
     = Some (''DELETE'',
             ''https://api.hosting.ionos.com/dns/v1/zones/a1b2/records/22af3414-abbe-9e11-5df5-66fbe8e334b4'')"
proof -
  let ?c = "\<lparr>HTTPClient = respond 200 [], BaseURL = baseURL, apiKey = ''secret''\<rparr>"
  have n: "fst (NewClient (respond 200 []) ''secret'') = Some ?c"
    by (simp add: NewClient_def url_Parse_defaultBaseURL)
  have z: "pathSegment ''a1b2''" and r: "pathSegment ''22af3414-abbe-9e11-5df5-66fbe8e334b4''"
    by code_simp+
  have m: "(\<lambda>rs. Inr ''[]'' :: error + string) ([] :: Record list) = Inr ''[]''"
    by simp
  show ?thesis
    using operations_follow_the_interface_table
        [OF n z r m, where ctx = "Context ''Background''" and filter' = None]
    by (simp add: background_def)
qed

text \<open>C7, as the claim states it, fails: \<^verbatim>\<open>JoinPath\<close> cleans the joined path, so the zone
  identifier \<^verbatim>\<open>..\<close> sends the \<^verbatim>\<open>PATCH\<close> of \<^verbatim>\<open>ReplaceRecords\<close> to \<^verbatim>\<open>/v1\<close>, and the record
  identifier \<^verbatim>\<open>..\<close> sends the \<^verbatim>\<open>DELETE\<close> of \<^verbatim>\<open>RemoveRecord\<close> to the zone.\<close>

theorem dot_dot_leaves_the_table_counterexample:
  "map_option requestTarget
     (sent (snd (ReplaceRecords (\<lambda>rs. Inr ''[]'')
                   \<lparr>HTTPClient = respond 200 [], BaseURL = baseURL, apiKey = ''secret''\<rparr>
                   background ''..'' [])))
     = Some (''PATCH'', ''https://api.hosting.ionos.com/dns/v1'')
   \<and> map_option requestTarget
     (sent (snd (RemoveRecord \<lparr>HTTPClient = respond 200 [], BaseURL = baseURL, apiKey = ''secret''\<rparr>
                   background ''a1b2'' ''..'')))
     = Some (''DELETE'', ''https://api.hosting.ionos.com/dns/v1/zones/a1b2'')"
  by code_simp

subsection \<open>The query of a filter\<close>

lemma Values_Add_fresh: "key \<notin> fst ` set v \<Longrightarrow> Values_Add v key x = v @ [(key, [x])]"
  by (induction v) auto

lemma Values_of_filter:
  "distinct (map fst f) \<Longrightarrow> fst ` set acc \<inter> fst ` set f = {} \<Longrightarrow>
   foldl (\<lambda>v (name, x). if x = [] then v else Values_Add v name x) acc f
     = acc @ map (\<lambda>(name, x). (name, [x])) (nonZero f)"
proof (induction f arbitrary: acc)
  case Nil
  then show ?case by (simp add: nonZero_def)
next
  case (Cons a f)
  obtain name x where a: "a = (name, x)" by (cases a)
  show ?case
  proof (cases "x = []")
    case True
    with Cons a show ?thesis by (auto simp: nonZero_def)
  next
    case False
    from Cons.prems a have fresh: "name \<notin> fst ` set acc" by auto
    from Cons.prems a have d: "distinct (map fst f)"
      and i: "fst ` set (acc @ [(name, [x])]) \<inter> fst ` set f = {}"
      by auto
    from Cons.IH [OF d i] False a fresh show ?thesis
      by (simp add: nonZero_def Values_Add_fresh)
  qed
qed

lemma map_insort_key: "map f (insort_key f a xs) = insort (f a) (map f xs)"
  by (induction xs) auto

lemma map_sort_key: "map f (sort_key f xs) = sort (map f xs)"
  by (induction xs) (auto simp: map_insort_key)

lemma map_of_singletons:
  "map_of (map (\<lambda>(name, x). (name, [x])) nz) k = map_option (\<lambda>x. [x]) (map_of nz k)"
  by (induction nz) auto

lemma Values_Encode_singletons:
  assumes "distinct (map fst nz)"
  shows "Values_Encode (map (\<lambda>(name, x). (name, [x])) nz)
           = joinWith ''&'' (map (\<lambda>(name, x). QueryEscape name @ ''='' @ QueryEscape x) (sort_key fst nz))"
proof -
  let ?v = "map (\<lambda>(name, x). (name, [x])) nz"
  let ?g = "\<lambda>(name, x). QueryEscape name @ ''='' @ QueryEscape x"
  let ?h = "\<lambda>k. map (\<lambda>x. QueryEscape k @ ''='' @ QueryEscape x)
                   (case map_of ?v k of Some xs \<Rightarrow> xs | None \<Rightarrow> [])"
  have keys: "map fst ?v = map fst nz"
    by (induction nz) auto
  have one: "?h (fst p) = [?g p]" if "p \<in> set nz" for p
  proof -
    obtain k x where p: "p = (k, x)" by (cases p)
    with that assms have "map_of nz k = Some x" by simp
    with p show ?thesis by (simp add: map_of_singletons)
  qed
  have "sort (map fst ?v) = map fst (sort_key fst nz)"
    by (simp only: keys map_sort_key)
  then have "concat (map ?h (sort (map fst ?v))) = concat (map (\<lambda>p. ?h (fst p)) (sort_key fst nz))"
    by (simp only: map_map comp_def)
  also have "map (\<lambda>p. ?h (fst p)) (sort_key fst nz) = map (\<lambda>p. [?g p]) (sort_key fst nz)"
    by (rule map_cong) (use one in simp_all)
  also have "concat (map (\<lambda>p. [?g p]) (sort_key fst nz)) = map ?g (sort_key fst nz)"
    by simp
  finally show ?thesis
    by (simp only: Values_Encode_def)
qed

lemma nonZero_distinct: "distinct (map fst f) \<Longrightarrow> distinct (map fst (nonZero f))"
  by (simp add: nonZero_def distinct_map_filter)

lemma querystring_Values_filter:
  assumes "distinct (map fst f)"
  shows "Values_Encode (foldl (\<lambda>v (name, x). if x = [] then v else Values_Add v name x) [] f) = queryOf f"
proof -
  have "foldl (\<lambda>v (name, x). if x = [] then v else Values_Add v name x) [] f
          = [] @ map (\<lambda>(name, x). (name, [x])) (nonZero f)"
    using assms by (intro Values_of_filter) simp_all
  then show ?thesis
    using Values_Encode_singletons [OF nonZero_distinct [OF assms]]
    by (simp add: queryOf_def)
qed

lemma GetRecords_query:
  "sent (snd (GetRecords c ctx zoneID (Some f))) = Some req \<Longrightarrow>
   RawQuery (URL req) = Values_Encode (foldl (\<lambda>v (name, x). if x = [] then v else Values_Add v name x) [] f)"
  by (auto simp: GetRecords_def Let_def exchange_defs querystring_Values_def split: result_splits)
lemma GetRecords_no_query:
  assumes "fst (NewClient DefaultClient key) = Some c" and "pathSegment zoneID"
  shows "map_option (\<lambda>r. (RawQuery (URL r), ForceQuery (URL r))) (sent (snd (GetRecords c (Some cx) zoneID None)))
           = Some ([], False)"
proof -
  have cz: "list_all (\<lambda>c. \<not> shouldEscape c encodePath) (CHR ''/'' # ''dns/v1/zones/'' @ zoneID)"
    using clean_prefix(2) pathSegment_facts(5) [OF assms(2)] by simp
  from makeRequest_clean [OF cz validMethods(1,4)]
  obtain req where r: "makeRequest c (Some cx) MethodGet
        (baseURL\<lparr>Path := CHR ''/'' # ''dns/v1/zones/'' @ zoneID\<rparr>) None = Inr req"
    and u: "URL req = baseURL\<lparr>Path := CHR ''/'' # ''dns/v1/zones/'' @ zoneID\<rparr>"
    by blast
  have "JoinPath (BaseURL c) [''v1'', ''zones'', zoneID]
          = baseURL\<lparr>Path := CHR ''/'' # ''dns/v1/zones/'' @ zoneID\<rparr>"
    by (simp add: NewClient_client [OF assms(1)] JoinPath_zone [OF assms(2)])
  with r have "makeRequest c (Some cx) MethodGet (JoinPath (BaseURL c) [''v1'', ''zones'', zoneID]) None = Inr req"
    by (simp only:)
  from GetRecords_sent [OF this, of None] u show ?thesis
    by (simp add: baseURL_def)
qed

text \<open>
  C5. For a filter whose fields have distinct parameter names, the query string of the
  request \<^verbatim>\<open>GetRecords\<close> sends holds exactly the fields that are not empty, one
  \<^verbatim>\<open>name=value\<close> parameter for each, in the order of the names. With a nil filter the
  request of a client made by \<^verbatim>\<open>NewClient\<close> has no query.
\<close>

theorem GetRecords_query_is_the_filter:
  "(\<forall>req. distinct (map fst f) \<and> sent (snd (GetRecords c ctx zoneID (Some f))) = Some req \<longrightarrow>
       RawQuery (URL req) = queryOf f)
   \<and> (fst (NewClient DefaultClient key) = Some c' \<and> pathSegment zoneID' \<longrightarrow>
       map_option (\<lambda>r. (RawQuery (URL r), ForceQuery (URL r)))
         (sent (snd (GetRecords c' (Some cx) zoneID' None))) = Some ([], False))"
proof (intro conjI allI impI; elim conjE)
  fix req
  assume "distinct (map fst f)" and "sent (snd (GetRecords c ctx zoneID (Some f))) = Some req"
  then show "RawQuery (URL req) = queryOf f"
    by (simp only: GetRecords_query querystring_Values_filter)
next
  assume "fst (NewClient DefaultClient key) = Some c'" and "pathSegment zoneID'"
  then show "map_option (\<lambda>r. (RawQuery (URL r), ForceQuery (URL r)))
               (sent (snd (GetRecords c' (Some cx) zoneID' None))) = Some ([], False)"
    by (rule GetRecords_no_query)
qed

theorem GetRecords_query_is_the_filter_witness:
  "map_option (\<lambda>r. RawQuery (URL r))
     (sent (snd (GetRecords \<lparr>HTTPClient = respond 200 [], BaseURL = baseURL, apiKey = ''secret''\<rparr> background
                   ''a1b2'' (Some [(''suffix'', ''example.com''), (''recordName'', []), (''recordType'', ''A,TXT'')]))))
     = Some ''recordType=A%2CTXT&suffix=example.com''
   \<and> map_option (\<lambda>r. (RawQuery (URL r), ForceQuery (URL r)))
     (sent (snd (GetRecords \<lparr>HTTPClient = respond 200 [], BaseURL = baseURL, apiKey = ''secret''\<rparr> background
                   ''a1b2'' None)))
     = Some ([], False)"
proof -
  let ?c = "\<lparr>HTTPClient = respond 200 [], BaseURL = baseURL, apiKey = ''secret''\<rparr>"
  let ?f = "[(''suffix'', ''example.com''), (''recordName'', []), (''recordType'', ''A,TXT'')]"
  have n: "fst (NewClient (respond 200 []) ''secret'') = Some ?c"
    by (simp add: NewClient_def url_Parse_defaultBaseURL)
  have z: "pathSegment ''a1b2''"
    by code_simp
  have d: "distinct (map fst ?f)"
    by simp
  have q: "queryOf ?f = ''recordType=A%2CTXT&suffix=example.com''"
    by code_simp
  have "map_option Method (sent (snd (GetRecords ?c background ''a1b2'' (Some ?f)))) = Some ''GET''"
    by code_simp
  then obtain req where r: "sent (snd (GetRecords ?c background ''a1b2'' (Some ?f))) = Some req"
    by blast
  from GetRecords_query_is_the_filter
    [where f = ?f and c = ?c and ctx = background and zoneID = "''a1b2''" and c' = ?c
       and DefaultClient = "respond 200 []" and key = "''secret''" and zoneID' = "''a1b2''"
       and cx = "Context ''Background''"]
    n z d r q
  show ?thesis
    by (simp add: background_def)
qed

end
